theory Spec2Isabelle
  imports Main
begin

section \<open>JavaScript values\<close>

text \<open>
  The values a request can carry. A query-string parameter is absent (\<open>Undefined\<close>) or a
  string; a field of the JSON body is absent, \<open>null\<close>, a boolean, a number or a string.
  Numbers are the integer-valued ones; objects and arrays as parameter values are outside
  the model. Strings are lists of 8-bit characters, read as Latin-1.
\<close>

datatype jsval = Undefined | Null | Bool bool | Num int | Str string

text \<open>The result of \<open>parseInt\<close>: \<open>NaN\<close> or an integer.\<close>

datatype jsnum = NaN | Number int

text \<open>JavaScript truthiness, as used by \<open>!url\<close> and by \<open>a || b\<close>.\<close>

fun truthy :: "jsval \<Rightarrow> bool" where
  "truthy Undefined = False"
| "truthy Null = False"
| "truthy (Bool b) = b"
| "truthy (Num n) = (n \<noteq> 0)"
| "truthy (Str s) = (s \<noteq> [])"

definition or_else :: "jsval \<Rightarrow> jsval \<Rightarrow> jsval" where
  \<comment> \<open>\<open>a || b\<close>\<close>
  "or_else a b = (if truthy a then a else b)"

definition dflt :: "jsval \<Rightarrow> jsval \<Rightarrow> jsval" where
  \<comment> \<open>a destructuring default \<open>{ k = b }\<close>: used only when the field is \<open>undefined\<close>\<close>
  "dflt a b = (if a = Undefined then b else a)"

subsection \<open>parseInt\<close>

definition is_space :: "char \<Rightarrow> bool" where
  \<comment> \<open>TAB, LF, VT, FF, CR, SP and NBSP\<close>
  "is_space c = (of_char c \<in> {9, 10, 11, 12, 13, 32, 160 :: nat})"

definition digit_table :: "(char \<times> int) list" where
  "digit_table =
     [(CHR ''0'', 0), (CHR ''1'', 1), (CHR ''2'', 2), (CHR ''3'', 3), (CHR ''4'', 4),
      (CHR ''5'', 5), (CHR ''6'', 6), (CHR ''7'', 7), (CHR ''8'', 8), (CHR ''9'', 9),
      (CHR ''a'', 10), (CHR ''b'', 11), (CHR ''c'', 12), (CHR ''d'', 13), (CHR ''e'', 14),
      (CHR ''f'', 15),
      (CHR ''A'', 10), (CHR ''B'', 11), (CHR ''C'', 12), (CHR ''D'', 13), (CHR ''E'', 14),
      (CHR ''F'', 15)]"

definition digit_val :: "int \<Rightarrow> char \<Rightarrow> int option" where
  \<comment> \<open>the value of a digit of the given radix, \<open>None\<close> for any other character\<close>
  "digit_val radix c =
     (case map_of digit_table c of
        None \<Rightarrow> None
      | Some v \<Rightarrow> if v < radix then Some v else None)"

definition is_digit :: "int \<Rightarrow> char \<Rightarrow> bool" where
  "is_digit radix c = (digit_val radix c \<noteq> None)"

definition digits_value :: "int \<Rightarrow> string \<Rightarrow> int" where
  "digits_value radix ds =
     foldl (\<lambda>a c. a * radix + (case digit_val radix c of Some v \<Rightarrow> v | None \<Rightarrow> 0)) 0 ds"

definition strip_sign :: "string \<Rightarrow> int \<times> string" where
  "strip_sign s =
     (case s of
        [] \<Rightarrow> (1, [])
      | c # r \<Rightarrow> if c = CHR ''-'' then (- 1, r) else if c = CHR ''+'' then (1, r) else (1, s))"

definition strip_radix :: "string \<Rightarrow> int \<times> string" where
  \<comment> \<open>no radix argument is ever passed: 16 after a \<open>0x\<close> or \<open>0X\<close> prefix, 10 otherwise\<close>
  "strip_radix s =
     (case s of
        a # b # r \<Rightarrow>
          if a = CHR ''0'' \<and> (b = CHR ''x'' \<or> b = CHR ''X'') then (16, r) else (10, s)
      | _ \<Rightarrow> (10, s))"

definition parseInt_string :: "string \<Rightarrow> jsnum" where
  \<comment> \<open>skip leading white space, read a sign, a radix prefix and the longest run of digits;
      what follows the digits is ignored. The value is kept exact (JavaScript rounds
      beyond \<open>2^53\<close>).\<close>
  "parseInt_string s =
     (let (sign, s1) = strip_sign (dropWhile is_space s);
          (radix, s2) = strip_radix s1;
          ds = takeWhile (is_digit radix) s2
      in if ds = [] then NaN else Number (sign * digits_value radix ds))"

fun lead_digit :: "nat \<Rightarrow> nat" where
  "lead_digit n = (if n < 10 then n else lead_digit (n div 10))"

fun parseInt :: "jsval \<Rightarrow> jsnum" where
  \<comment> \<open>\<open>parseInt\<close> converts its argument to a string first: \<open>undefined\<close>, \<open>null\<close>,
      \<open>true\<close> and \<open>false\<close> have no digits; an integer below \<open>10^21\<close> in magnitude prints
      in plain decimal, a larger one in exponent notation, of which only the leading digit
      is read (the rounding of the printed digits is not modelled).\<close>
  "parseInt Undefined = NaN"
| "parseInt Null = NaN"
| "parseInt (Bool b) = NaN"
| "parseInt (Num n) =
     (if \<bar>n\<bar> < 10 ^ 21 then Number n else Number (sgn n * int (lead_digit (nat \<bar>n\<bar>))))"
| "parseInt (Str s) = parseInt_string s"

definition or_number :: "jsnum \<Rightarrow> int \<Rightarrow> int" where
  \<comment> \<open>\<open>parseInt(x) || d\<close>: \<open>NaN\<close> and \<open>0\<close> are falsy\<close>
  "or_number v d = (case v of NaN \<Rightarrow> d | Number n \<Rightarrow> if n = 0 then d else n)"

section \<open>The platform: URL parser, browser, encoder\<close>

text \<open>
  A call into the platform settles after some milliseconds with a value, settles with an
  error carrying a message, or never settles.
\<close>

datatype 'a outcome = Returns nat 'a | Throws nat string | Never

type_synonym buffer = "nat list"

record clip =
  clip_x :: int
  clip_y :: int
  clip_width :: jsnum
  clip_height :: jsnum

record screenshotOptions =
  so_type :: string
  so_fullPage :: bool
  so_clip :: "clip option"

text \<open>
  The libraries the server calls are parameters of the model: the URL constructor
  (\<open>url_protocol v\<close> is the \<open>protocol\<close> of \<open>new URL(v)\<close>, \<open>None\<close> where the constructor
  throws), Playwright's browser, context and page, and Sharp's WebP encoder. So is the
  message of the \<open>TypeError\<close> the engine throws when \<open>null\<close> is destructured.
\<close>

record env =
  url_protocol :: "jsval \<Rightarrow> string option"
  launch :: "unit outcome"
  newContext :: "jsnum \<Rightarrow> jsnum \<Rightarrow> unit outcome"
  newPage :: "unit outcome"
  goto :: "jsval \<Rightarrow> string \<Rightarrow> jsnum \<Rightarrow> unit outcome"
  screenshot :: "screenshotOptions \<Rightarrow> buffer outcome"
  webp :: "buffer \<Rightarrow> jsnum \<Rightarrow> buffer outcome"
  page_close :: "unit outcome"
  context_close :: "unit outcome"
  browser_close :: "unit outcome"
  null_options_message :: string

text \<open>What the server asks of the platform, in order, and the cleanup warning it logs.\<close>

datatype event =
    Launch
  | NewContext jsnum jsnum
  | NewPage
  | Goto jsval string jsnum
  | Screenshot screenshotOptions
  | Webp buffer jsnum
  | PageClose
  | ContextClose
  | BrowserClose
  | Warn string

section \<open>The capture pipeline\<close>

text \<open>
  The state of one run of \<open>captureScreenshot\<close>: which of the variables \<open>browser\<close>,
  \<open>context\<close> and \<open>page\<close> have been assigned (\<open>has_browser\<close> and so on), the calls
  made so far, and the time spent.
\<close>

record run =
  has_browser :: bool
  has_context :: bool
  has_page :: bool
  trace :: "event list"
  clock :: nat

definition start :: run where
  "start = \<lparr>has_browser = False, has_context = False, has_page = False, trace = [], clock = 0\<rparr>"

datatype 'a completion = Resolved 'a | Rejected string | Pending

definition await :: "event \<Rightarrow> 'a outcome \<Rightarrow> ('a \<Rightarrow> run \<Rightarrow> 'b completion \<times> run) \<Rightarrow> run
    \<Rightarrow> 'b completion \<times> run" where
  \<comment> \<open>\<open>await\<close> a platform call inside a \<open>try\<close> block, then go on with its value\<close>
  "await ev out k r =
     (case out of
        Returns d v \<Rightarrow> k v (r\<lparr>trace := trace r @ [ev], clock := clock r + d\<rparr>)
      | Throws d m \<Rightarrow> (Rejected m, r\<lparr>trace := trace r @ [ev], clock := clock r + d\<rparr>)
      | Never \<Rightarrow> (Pending, r\<lparr>trace := trace r @ [ev]\<rparr>))"

definition createBrowser :: "env \<Rightarrow> unit outcome" where
  "createBrowser E =
     (case launch E of
        Throws d m \<Rightarrow> Throws d ''Failed to create browser instance''
      | out \<Rightarrow> out)"

definition isValidUrl :: "env \<Rightarrow> jsval \<Rightarrow> bool" where
  "isValidUrl E string =
     (case url_protocol E string of
        None \<Rightarrow> False
      | Some protocol \<Rightarrow> protocol = ''http:'' \<or> protocol = ''https:'')"

record options =
  width :: jsval
  height :: jsval
  quality :: jsval
  fullPage :: jsval
  waitUntil :: jsval
  timeout :: jsval

text \<open>
  What \<open>captureScreenshot\<close> can be handed as its \<open>options\<close>: nothing, \<open>null\<close>, a value that
  is no object (a boolean, a number, a string; an array likewise has none of the six
  properties), or an object, whose absent properties are \<open>Undefined\<close>.
\<close>

datatype options_value = Opt_undefined | Opt_null | Opt_other | Opt_object options

definition no_options :: options where
  \<comment> \<open>the object \<open>{}\<close>\<close>
  "no_options =
     \<lparr>width = Undefined, height = Undefined, quality = Undefined, fullPage = Undefined,
      waitUntil = Undefined, timeout = Undefined\<rparr>"

fun options_of :: "options_value \<Rightarrow> options" where
  \<comment> \<open>the six properties as destructuring reads them from a value that is not \<open>null\<close>\<close>
  "options_of (Opt_object opts) = opts"
| "options_of v = no_options"

definition playwrightWaitUntil :: "jsval \<Rightarrow> string" where
  "playwrightWaitUntil w =
     (if w = Str ''load'' then ''load''
      else if w = Str ''domcontentloaded'' then ''domcontentloaded''
      else ''networkidle'')"

definition make_screenshotOptions :: "jsval \<Rightarrow> jsval \<Rightarrow> jsval \<Rightarrow> screenshotOptions" where
  "make_screenshotOptions w h fp =
     (let full = (fp = Str ''true'' \<or> fp = Bool True)
      in \<lparr>so_type = ''png'', so_fullPage = full,
          so_clip = (if \<not> full
                     then Some \<lparr>clip_x = 0, clip_y = 0, clip_width = parseInt w,
                                 clip_height = parseInt h\<rparr>
                     else None)\<rparr>)"

definition try_block :: "env \<Rightarrow> jsval \<Rightarrow> options \<Rightarrow> buffer completion \<times> run" where
  \<comment> \<open>the \<open>try\<close> block, for options that are not \<open>null\<close>; the defaults of the
      destructuring that precedes it are applied here\<close>
  "try_block E url opts =
     (let w = dflt (width opts) (Num 1200);
          h = dflt (height opts) (Num 800);
          q = dflt (quality opts) (Num 80);
          fp = dflt (fullPage opts) (Bool False);
          wu = dflt (waitUntil opts) (Str ''networkidle'');
          t = dflt (timeout opts) (Num 30000)
      in
      await Launch (createBrowser E) (\<lambda>_ r.
      await (NewContext (parseInt w) (parseInt h)) (newContext E (parseInt w) (parseInt h)) (\<lambda>_ r.
      await NewPage (newPage E) (\<lambda>_ r.
      await (Goto url (playwrightWaitUntil wu) (parseInt t))
            (goto E url (playwrightWaitUntil wu) (parseInt t)) (\<lambda>_ r.
      await (Screenshot (make_screenshotOptions w h fp))
            (screenshot E (make_screenshotOptions w h fp)) (\<lambda>shot r.
      await (Webp shot (parseInt q)) (webp E shot (parseInt q)) (\<lambda>optimizedImage r.
        (Resolved optimizedImage, r)) r) r)
        (r\<lparr>has_page := True\<rparr>))
        (r\<lparr>has_context := True\<rparr>))
        (r\<lparr>has_browser := True\<rparr>))
        start)"

definition close_if :: "bool \<Rightarrow> event \<Rightarrow> unit outcome \<Rightarrow> (run \<Rightarrow> unit completion \<times> run) \<Rightarrow> run
    \<Rightarrow> unit completion \<times> run" where
  \<comment> \<open>\<open>if (x) await x.close();\<close> and the statements after it\<close>
  "close_if b ev out k r = (if b then await ev out (\<lambda>_. k) r else k r)"

definition finally_block :: "env \<Rightarrow> run \<Rightarrow> bool \<times> run" where
  \<comment> \<open>one \<open>try\<close> around the three closes; its \<open>catch\<close> logs a warning. The boolean tells
      whether the block comes to an end.\<close>
  "finally_block E r =
     (case close_if (has_page r) PageClose (page_close E) (\<lambda>r.
           close_if (has_context r) ContextClose (context_close E) (\<lambda>r.
           close_if (has_browser r) BrowserClose (browser_close E) (\<lambda>r.
             (Resolved (), r)) r) r) r of
        (Resolved _, r') \<Rightarrow> (True, r')
      | (Rejected m, r') \<Rightarrow> (True, r'\<lparr>trace := trace r' @ [Warn m]\<rparr>)
      | (Pending, r') \<Rightarrow> (False, r'))"

text \<open>
  \<open>captureScreenshot\<close> gives the calls it makes and how its promise settles: not at all
  (\<open>None\<close>), or after some milliseconds with the image or with an error message. Its
  parameter default \<open>options = {}\<close> replaces \<open>undefined\<close> only; the destructuring of the
  options comes before the \<open>try\<close> block, so with \<open>null\<close> the promise is rejected at once
  with the engine's \<open>TypeError\<close>, outside \<open>try\<close>, \<open>catch\<close> and \<open>finally\<close>.
\<close>

type_synonym settlement = "(nat \<times> (string + buffer)) option"

definition after_finally :: "env \<Rightarrow> run \<Rightarrow> string + buffer \<Rightarrow> settlement \<times> event list" where
  \<comment> \<open>the \<open>finally\<close> block runs, then the promise settles with what \<open>try\<close> and
      \<open>catch\<close> produced\<close>
  "after_finally E r result =
     (case finally_block E r of
        (True, r') \<Rightarrow> (Some (clock r', result), trace r')
      | (False, r') \<Rightarrow> (None, trace r'))"

definition try_catch_finally :: "env \<Rightarrow> jsval \<Rightarrow> options \<Rightarrow> settlement \<times> event list" where
  "try_catch_finally E url opts =
     (case try_block E url opts of
        (Resolved optimizedImage, r) \<Rightarrow> after_finally E r (Inr optimizedImage)
      | (Rejected message, r) \<Rightarrow> after_finally E r (Inl (''Screenshot failed: '' @ message))
      | (Pending, r) \<Rightarrow> (None, trace r))"

definition captureScreenshot :: "env \<Rightarrow> jsval \<Rightarrow> options_value \<Rightarrow> settlement \<times> event list"
  where
  "captureScreenshot E url options =
     (case options of
        Opt_null \<Rightarrow> (Some (0, Inl (null_options_message E)), [])
      | Opt_undefined \<Rightarrow> try_catch_finally E url no_options
      | Opt_other \<Rightarrow> try_catch_finally E url no_options
      | Opt_object opts \<Rightarrow> try_catch_finally E url opts)"

section \<open>The HTTP handlers\<close>

datatype header =
    ContentType string
  | ContentLength nat
  | CacheControl string
  | XScreenshotURL jsval
  | XScreenshotDimensions int int

text \<open>
  A response is the image, sent with its headers and status 200, or a JSON object sent
  with a status.
\<close>

datatype response = Img "header list" buffer | Json nat "(string \<times> string) list"

fun status :: "response \<Rightarrow> nat" where
  "status (Img hs b) = 200"
| "status (Json code obj) = code"

definition overall_timeout :: nat where
  "overall_timeout = 60000"

definition race :: "settlement \<Rightarrow> string + buffer" where
  \<comment> \<open>\<open>Promise.race\<close> of the capture against a timer that rejects after 60000 ms: the
      capture decides when it settles before the timer fires\<close>
  "race p =
     (case p of
        None \<Rightarrow> Inl ''Screenshot request timeout''
      | Some (t, result) \<Rightarrow>
          if t < overall_timeout then result else Inl ''Screenshot request timeout'')"

definition failed :: "string \<Rightarrow> response" where
  \<comment> \<open>the \<open>catch\<close> of both handlers\<close>
  "failed message =
     Json 500 [(''error'', ''Failed to capture screenshot''), (''message'', message)]"

definition valid_header_char :: "char \<Rightarrow> bool" where
  \<comment> \<open>Node refuses a header value holding a control character other than TAB\<close>
  "valid_header_char c =
     (let n = of_char c :: nat in n = 9 \<or> (32 \<le> n \<and> n \<le> 126) \<or> 128 \<le> n)"

fun header_value_ok :: "jsval \<Rightarrow> bool" where
  "header_value_ok (Str s) = list_all valid_header_char s"
| "header_value_ok v = True"

definition invalid_header_message :: string where
  \<comment> \<open>the message of the error \<open>res.set\<close> throws; the header's name is in double quotes\<close>
  "invalid_header_message =
     ''Invalid character in header content ['' @ [CHR 0x22] @ ''X-Screenshot-URL'' @
     [CHR 0x22] @ '']''"

record query =
  q_url :: "string option"
  q_width :: "string option"
  q_height :: "string option"
  q_quality :: "string option"
  q_fullPage :: "string option"
  q_waitUntil :: "string option"
  q_timeout :: "string option"

fun param :: "string option \<Rightarrow> jsval" where
  "param None = Undefined"
| "param (Some s) = Str s"

definition widthNum :: "query \<Rightarrow> int" where
  "widthNum q = or_number (parseInt (param (q_width q))) 1200"

definition heightNum :: "query \<Rightarrow> int" where
  "heightNum q = or_number (parseInt (param (q_height q))) 800"

definition capture_options :: "query \<Rightarrow> options" where
  \<comment> \<open>the options object the GET handler hands to \<open>captureScreenshot\<close>\<close>
  "capture_options q =
     \<lparr>width = Num (widthNum q), height = Num (heightNum q),
      quality = or_else (param (q_quality q)) (Num 80),
      fullPage = param (q_fullPage q),
      waitUntil = or_else (param (q_waitUntil q)) (Str ''networkidle2''),
      timeout = or_else (param (q_timeout q)) (Num 30000)\<rparr>"

definition get_screenshot :: "env \<Rightarrow> query \<Rightarrow> response \<times> event list" where
  \<comment> \<open>\<open>app.get('/screenshot')\<close>: the response, and the platform calls of the request\<close>
  "get_screenshot E q =
     (let url = param (q_url q) in
      if \<not> truthy url then
        (Json 400 [(''error'', ''URL parameter is required''),
                   (''example'', ''/screenshot?url=https://example.com&width=1200&height=800'')],
         [])
      else if \<not> isValidUrl E url then
        (Json 400 [(''error'', ''Invalid URL format. Must include http:// or https://'')], [])
      else if widthNum q < 100 \<or> widthNum q > 4000 then
        (Json 400 [(''error'', ''Width must be between 100 and 4000 pixels'')], [])
      else if heightNum q < 100 \<or> heightNum q > 4000 then
        (Json 400 [(''error'', ''Height must be between 100 and 4000 pixels'')], [])
      else
        let (p, calls) = captureScreenshot E url (Opt_object (capture_options q)) in
        ((case race p of
            Inr imageBuffer \<Rightarrow>
              if header_value_ok url then
                Img [ContentType ''image/webp'', ContentLength (length imageBuffer),
                     CacheControl ''public, max-age=3600'', XScreenshotURL url,
                     XScreenshotDimensions (widthNum q) (heightNum q)] imageBuffer
              else failed invalid_header_message
          | Inl message \<Rightarrow> failed message),
         calls))"

record body =
  b_url :: jsval
  b_options :: options_value

definition post_screenshot :: "env \<Rightarrow> body \<Rightarrow> response \<times> event list" where
  \<comment> \<open>\<open>app.post('/screenshot')\<close>; the default \<open>options = {}\<close> of its destructuring replaces
      \<open>undefined\<close> only\<close>
  "post_screenshot E b =
     (let url = b_url b;
          options = (case b_options b of Opt_undefined \<Rightarrow> Opt_object no_options | v \<Rightarrow> v)
      in
      if \<not> truthy url then
        (Json 400 [(''error'', ''URL is required in request body'')], [])
      else if \<not> isValidUrl E url then
        (Json 400 [(''error'', ''Invalid URL format. Must include http:// or https://'')], [])
      else
        let (p, calls) = captureScreenshot E url options in
        ((case race p of
            Inr imageBuffer \<Rightarrow>
              Img [ContentType ''image/webp'', ContentLength (length imageBuffer),
                   CacheControl ''public, max-age=3600''] imageBuffer
          | Inl message \<Rightarrow> failed message),
         calls))"

section \<open>A sample platform\<close>

text \<open>
  A platform on which the model can be run: every browser call succeeds, the screenshot
  is a fixed bitmap, and the encoder accepts a quality from 1 to 100 only, as Sharp does.
\<close>

definition sample_protocol :: "jsval \<Rightarrow> string option" where
  "sample_protocol v =
     (case v of
        Str s \<Rightarrow>
          if take 8 s = ''https://'' \<and> 8 < length s then Some ''https:''
          else if take 7 s = ''http://'' \<and> 7 < length s then Some ''http:''
          else if take 6 s = ''ftp://'' \<and> 6 < length s then Some ''ftp:''
          else if take 8 s = ''file:///'' then Some ''file:''
          else None
      | _ \<Rightarrow> None)"

definition sample_webp :: "buffer \<Rightarrow> jsnum \<Rightarrow> buffer outcome" where
  "sample_webp b q =
     (case q of
        NaN \<Rightarrow> Throws 0 ''Expected integer between 1 and 100 for quality''
      | Number n \<Rightarrow>
          if 1 \<le> n \<and> n \<le> 100 then Returns 120 (take 2 b)
          else Throws 0 ''Expected integer between 1 and 100 for quality'')"

definition sample :: env where
  "sample =
     \<lparr>url_protocol = sample_protocol,
      launch = Returns 800 (),
      newContext = (\<lambda>w h. Returns 50 ()),
      newPage = Returns 50 (),
      goto = (\<lambda>url wu t. Returns 2000 ()),
      screenshot = (\<lambda>so. Returns 300 [137, 80, 78, 71]),
      webp = sample_webp,
      page_close = Returns 20 (),
      context_close = Returns 20 (),
      browser_close = Returns 100 (),
      null_options_message = ''Cannot destructure property width of options as it is null.''\<rparr>"

definition no_query :: query where
  "no_query =
     \<lparr>q_url = None, q_width = None, q_height = None, q_quality = None, q_fullPage = None,
      q_waitUntil = None, q_timeout = None\<rparr>"

section \<open>Notions used to state the properties\<close>

fun is_close :: "event \<Rightarrow> bool" where
  "is_close PageClose = True"
| "is_close ContextClose = True"
| "is_close BrowserClose = True"
| "is_close ev = False"

definition closes :: "run \<Rightarrow> event list" where
  \<comment> \<open>one close for each component the run holds: page, then context, then browser\<close>
  "closes r =
     (if has_page r then [PageClose] else []) @
     (if has_context r then [ContextClose] else []) @
     (if has_browser r then [BrowserClose] else [])"

fun settles :: "'a outcome \<Rightarrow> bool" where
  "settles Never = False"
| "settles out = True"

fun returns :: "'a outcome \<Rightarrow> bool" where
  "returns (Returns d v) = True"
| "returns out = False"

definition and_then :: "'a outcome \<Rightarrow> ('a \<Rightarrow> 'b outcome) \<Rightarrow> 'b outcome" where
  \<comment> \<open>one platform call after another: the second is made only if the first returns\<close>
  "and_then out k =
     (case out of
        Returns d v \<Rightarrow>
          (case k v of
             Returns d' v' \<Rightarrow> Returns (d + d') v'
           | Throws d' m \<Rightarrow> Throws (d + d') m
           | Never \<Rightarrow> Never)
      | Throws d m \<Rightarrow> Throws d m
      | Never \<Rightarrow> Never)"

definition primary :: "env \<Rightarrow> jsval \<Rightarrow> options \<Rightarrow> buffer outcome" where
  \<comment> \<open>what the platform makes of the steps acquire, navigate, capture, encode, taken in
      this order and stopped at the first that does not return: the primary outcome of a
      request, stated on the platform alone\<close>
  "primary E url opts =
     and_then (createBrowser E) (\<lambda>_.
     and_then (newContext E (parseInt (dflt (width opts) (Num 1200)))
                 (parseInt (dflt (height opts) (Num 800)))) (\<lambda>_.
     and_then (newPage E) (\<lambda>_.
     and_then (goto E url (playwrightWaitUntil (dflt (waitUntil opts) (Str ''networkidle'')))
                 (parseInt (dflt (timeout opts) (Num 30000)))) (\<lambda>_.
     and_then (screenshot E (make_screenshotOptions (dflt (width opts) (Num 1200))
                 (dflt (height opts) (Num 800)) (dflt (fullPage opts) (Bool False)))) (\<lambda>shot.
       webp E shot (parseInt (dflt (quality opts) (Num 80))))))))"

definition got_browser :: "env \<Rightarrow> bool" where
  "got_browser E = returns (launch E)"

definition got_context :: "env \<Rightarrow> options \<Rightarrow> bool" where
  "got_context E opts =
     (got_browser E \<and>
      returns (newContext E (parseInt (dflt (width opts) (Num 1200)))
                 (parseInt (dflt (height opts) (Num 800)))))"

definition got_page :: "env \<Rightarrow> options \<Rightarrow> bool" where
  "got_page E opts = (got_context E opts \<and> returns (newPage E))"

definition expected_closes :: "env \<Rightarrow> options \<Rightarrow> event list" where
  \<comment> \<open>one close for each component the platform handed out: page, context, browser\<close>
  "expected_closes E opts =
     (if got_page E opts then [PageClose] else []) @
     (if got_context E opts then [ContextClose] else []) @
     (if got_browser E then [BrowserClose] else [])"

definition closes_settle :: "env \<Rightarrow> bool" where
  "closes_settle E =
     (settles (page_close E) \<and> settles (context_close E) \<and> settles (browser_close E))"

definition closes_return :: "env \<Rightarrow> bool" where
  "closes_return E =
     (returns (page_close E) \<and> returns (context_close E) \<and> returns (browser_close E))"

definition work_events :: "jsval \<Rightarrow> options \<Rightarrow> event set" where
  \<comment> \<open>the calls of the \<open>try\<close> block, with the arguments the options give them\<close>
  "work_events url opts =
     {Launch,
      NewContext (parseInt (dflt (width opts) (Num 1200)))
        (parseInt (dflt (height opts) (Num 800))),
      NewPage,
      Goto url (playwrightWaitUntil (dflt (waitUntil opts) (Str ''networkidle'')))
        (parseInt (dflt (timeout opts) (Num 30000))),
      Screenshot (make_screenshotOptions (dflt (width opts) (Num 1200))
        (dflt (height opts) (Num 800)) (dflt (fullPage opts) (Bool False)))}
     \<union> {Webp b (parseInt (dflt (quality opts) (Num 80))) | b. True}"

definition accepted :: "env \<Rightarrow> query \<Rightarrow> bool" where
  \<comment> \<open>the request passes every check of the GET handler\<close>
  "accepted E q =
     (truthy (param (q_url q)) \<and> isValidUrl E (param (q_url q)) \<and>
      100 \<le> widthNum q \<and> widthNum q \<le> 4000 \<and> 100 \<le> heightNum q \<and> heightNum q \<le> 4000)"

fun first_content_type :: "header list \<Rightarrow> string option" where
  "first_content_type [] = None"
| "first_content_type (ContentType t # hs) = Some t"
| "first_content_type (h # hs) = first_content_type hs"

fun content_type :: "response \<Rightarrow> string option" where
  \<comment> \<open>the declared content type of an image response\<close>
  "content_type (Img hs b) = first_content_type hs"
| "content_type (Json code obj) = None"


section \<open>Evaluation\<close>

declare lead_digit.simps [simp del]

lemmas run_defs =
  get_screenshot_def post_screenshot_def captureScreenshot_def try_catch_finally_def
  after_finally_def try_block_def
  finally_block_def await_def close_if_def start_def createBrowser_def dflt_def or_else_def
  playwrightWaitUntil_def make_screenshotOptions_def capture_options_def widthNum_def
  heightNum_def or_number_def isValidUrl_def race_def overall_timeout_def failed_def
  valid_header_char_def Let_def

lemmas sample_defs = sample_def sample_protocol_def sample_webp_def no_query_def no_options_def

lemma parse_samples:
  "parseInt_string ''abc'' = NaN" "parseInt_string ''tall'' = NaN"
  "parseInt_string ''5000'' = Number 5000" "parseInt_string ''800'' = Number 800"
  "parseInt_string ''99'' = Number 99" "parseInt_string ''150'' = Number 150"
  "parseInt_string ''90000'' = Number 90000" "parseInt_string ''0'' = Number 0"
  by code_simp+

section \<open>The calls of a run\<close>

lemma try_block_trace:
  "set (trace (snd (try_block E url opts))) \<subseteq> work_events url opts"
  unfolding try_block_def await_def start_def Let_def work_events_def
  by (auto split: outcome.splits)

lemma work_events_not_close: "e \<in> work_events url opts \<Longrightarrow> \<not> is_close e"
  by (auto simp: work_events_def)

lemma try_block_flags:
  "has_browser (snd (try_block E url opts)) = (\<exists>d. launch E = Returns d ())"
  "has_context (snd (try_block E url opts)) =
     (has_browser (snd (try_block E url opts)) \<and>
      (\<exists>d. newContext E (parseInt (dflt (width opts) (Num 1200)))
              (parseInt (dflt (height opts) (Num 800))) = Returns d ()))"
  "has_page (snd (try_block E url opts)) =
     (has_context (snd (try_block E url opts)) \<and> (\<exists>d. newPage E = Returns d ()))"
  unfolding try_block_def await_def start_def Let_def createBrowser_def
  by (auto split: outcome.splits)

lemma finally_block_trace:
  "\<exists>cl. trace (snd (finally_block E r)) = trace r @ cl
     \<and> set cl \<subseteq> {PageClose, ContextClose, BrowserClose} \<union> range Warn"
  unfolding finally_block_def await_def close_if_def
  by (auto split: outcome.splits)

lemma try_catch_finally_trace:
  "\<exists>cl. snd (try_catch_finally E url opts) = trace (snd (try_block E url opts)) @ cl
     \<and> set cl \<subseteq> {PageClose, ContextClose, BrowserClose} \<union> range Warn"
proof (cases "try_block E url opts")
  case (Pair c r)
  obtain cl where cl: "trace (snd (finally_block E r)) = trace r @ cl"
    "set cl \<subseteq> {PageClose, ContextClose, BrowserClose} \<union> range Warn"
    using finally_block_trace by blast
  then show ?thesis using Pair
    by (cases c) (auto simp: try_catch_finally_def after_finally_def split: prod.splits bool.splits)
qed

lemma try_catch_finally_events:
  assumes "ev \<in> set (snd (try_catch_finally E url opts))"
  shows "ev \<in> work_events url opts \<or> is_close ev \<or> (\<exists>m. ev = Warn m)"
proof -
  obtain cl where cl: "snd (try_catch_finally E url opts) = trace (snd (try_block E url opts)) @ cl"
     "set cl \<subseteq> {PageClose, ContextClose, BrowserClose} \<union> range Warn"
    using try_catch_finally_trace by blast
  from assms cl(1) have "ev \<in> set (trace (snd (try_block E url opts))) \<or> ev \<in> set cl" by auto
  then show ?thesis
  proof
    assume "ev \<in> set (trace (snd (try_block E url opts)))"
    then show ?thesis using try_block_trace by blast
  next
    assume "ev \<in> set cl"
    with cl(2) show ?thesis by auto
  qed
qed


lemma captureScreenshot_null [simp]:
  "captureScreenshot E url Opt_null = (Some (0, Inl (null_options_message E)), [])"
  by (simp add: captureScreenshot_def)

lemma captureScreenshot_not_null:
  "ov \<noteq> Opt_null \<Longrightarrow> captureScreenshot E url ov = try_catch_finally E url (options_of ov)"
  by (cases ov) (simp_all add: captureScreenshot_def)

lemma captureScreenshot_default:
  "captureScreenshot E url (case ov of Opt_undefined \<Rightarrow> Opt_object no_options | v \<Rightarrow> v) =
     captureScreenshot E url ov"
  by (cases ov) (simp_all add: captureScreenshot_def)

lemma captureScreenshot_events:
  assumes "ev \<in> set (snd (captureScreenshot E url ov))"
  shows "ev \<in> work_events url (options_of ov) \<or> is_close ev \<or> (\<exists>m. ev = Warn m)"
proof (cases "ov = Opt_null")
  case True
  with assms show ?thesis by simp
next
  case False
  with assms try_catch_finally_events show ?thesis
    by (simp add: captureScreenshot_not_null)
qed

section \<open>Release of the browser session\<close>

lemma try_block_primary:
  "fst (try_block E url opts) =
     (case primary E url opts of
        Returns d img \<Rightarrow> Resolved img
      | Throws d m \<Rightarrow> Rejected m
      | Never \<Rightarrow> Pending)"
  unfolding try_block_def primary_def and_then_def await_def start_def Let_def
  by (simp split: outcome.splits)

lemma returns_unit: "returns out = (\<exists>d. out = Returns d ())"
  by (cases out) auto

lemma try_block_got:
  "has_browser (snd (try_block E url opts)) = got_browser E"
  "has_context (snd (try_block E url opts)) = got_context E opts"
  "has_page (snd (try_block E url opts)) = got_page E opts"
  using try_block_flags [of E url opts]
  by (simp_all add: got_browser_def got_context_def got_page_def returns_unit)

lemma closes_expected: "closes (snd (try_block E url opts)) = expected_closes E opts"
  by (simp add: closes_def expected_closes_def try_block_got)

lemma finally_block_ends: "closes_settle E \<Longrightarrow> fst (finally_block E r)"
  unfolding finally_block_def await_def close_if_def closes_settle_def
  by (auto split: outcome.splits)

lemma finally_block_returns:
  "closes_return E \<Longrightarrow> fst (finally_block E r) \<and>
     trace (snd (finally_block E r)) = trace r @ closes r"
  unfolding finally_block_def await_def close_if_def closes_return_def closes_def
  by (auto split: outcome.splits)

lemma finally_block_warning:
  "\<exists>cl. trace (snd (finally_block E r)) = trace r @ cl \<and>
     ((PageClose \<in> set cl \<and> page_close E = Throws d m) \<or>
      (ContextClose \<in> set cl \<and> context_close E = Throws d m) \<or>
      (BrowserClose \<in> set cl \<and> browser_close E = Throws d m)
      \<longrightarrow> Warn m \<in> set cl)"
  unfolding finally_block_def await_def close_if_def
  by (auto split: outcome.splits)

lemma try_block_no_close: "e \<in> set (trace (snd (try_block E url opts))) \<Longrightarrow> \<not> is_close e"
  using try_block_trace work_events_not_close by blast

lemma tcf_pending:
  assumes "primary E url opts = Never"
  shows "try_catch_finally E url opts = (None, trace (snd (try_block E url opts)))"
proof -
  have "fst (try_block E url opts) = Pending" using assms by (simp add: try_block_primary)
  then show ?thesis by (cases "try_block E url opts") (simp add: try_catch_finally_def)
qed

lemma tcf_resolved:
  assumes "primary E url opts = Returns d img"
  shows "try_catch_finally E url opts =
     after_finally E (snd (try_block E url opts)) (Inr img)"
proof -
  have "fst (try_block E url opts) = Resolved img" using assms by (simp add: try_block_primary)
  then show ?thesis by (cases "try_block E url opts") (simp add: try_catch_finally_def)
qed

lemma tcf_rejected:
  assumes "primary E url opts = Throws d m"
  shows "try_catch_finally E url opts =
     after_finally E (snd (try_block E url opts)) (Inl (''Screenshot failed: '' @ m))"
proof -
  have "fst (try_block E url opts) = Rejected m" using assms by (simp add: try_block_primary)
  then show ?thesis by (cases "try_block E url opts") (simp add: try_catch_finally_def)
qed

lemma after_finally_settles:
  "closes_settle E \<Longrightarrow> \<exists>t. fst (after_finally E r result) = Some (t, result)"
  using finally_block_ends [of E r]
  by (cases "finally_block E r") (auto simp: after_finally_def)

lemma after_finally_calls: "snd (after_finally E r result) = trace (snd (finally_block E r))"
  by (cases "finally_block E r") (auto simp: after_finally_def split: bool.splits)

text \<open>
  Claim C1, as the code has it, stated on what the platform does. For options that are
  not \<open>null\<close>: when a step of the \<open>try\<close> block never settles, the promise never settles and
  no close is called; when the steps return, or one of them throws, and the three closes
  settle, the promise settles with the image, or with the failure of that step, whatever
  the closes did; when the closes return, the calls of the run end with one close for
  each component the platform handed out, page first, then context, then browser, and no
  close comes earlier. A close that is called and fails is logged as a warning. With
  \<open>null\<close> options the promise is rejected before anything is acquired.
\<close>

theorem release_of_the_session:
  "(ov \<noteq> Opt_null \<and> primary E url (options_of ov) = Never \<longrightarrow>
      fst (captureScreenshot E url ov) = None \<and>
      (\<forall>e \<in> set (snd (captureScreenshot E url ov)). \<not> is_close e)) \<and>
   (\<forall>d img. ov \<noteq> Opt_null \<and> primary E url (options_of ov) = Returns d img \<and>
      closes_settle E \<longrightarrow>
      (\<exists>t. fst (captureScreenshot E url ov) = Some (t, Inr img))) \<and>
   (\<forall>d m. ov \<noteq> Opt_null \<and> primary E url (options_of ov) = Throws d m \<and>
      closes_settle E \<longrightarrow>
      (\<exists>t. fst (captureScreenshot E url ov) = Some (t, Inl (''Screenshot failed: '' @ m)))) \<and>
   (ov \<noteq> Opt_null \<and> primary E url (options_of ov) \<noteq> Never \<and> closes_return E \<longrightarrow>
      (\<exists>work. snd (captureScreenshot E url ov) = work @ expected_closes E (options_of ov) \<and>
         (\<forall>e \<in> set work. \<not> is_close e))) \<and>
   (\<forall>d m. (PageClose \<in> set (snd (captureScreenshot E url ov)) \<and>
              page_close E = Throws d m) \<or>
           (ContextClose \<in> set (snd (captureScreenshot E url ov)) \<and>
              context_close E = Throws d m) \<or>
           (BrowserClose \<in> set (snd (captureScreenshot E url ov)) \<and>
              browser_close E = Throws d m)
      \<longrightarrow> Warn m \<in> set (snd (captureScreenshot E url ov))) \<and>
   captureScreenshot E url Opt_null = (Some (0, Inl (null_options_message E)), [])"
proof -
  let ?o = "options_of ov"
  let ?r = "snd (try_block E url ?o)"
  have 1: "ov \<noteq> Opt_null \<and> primary E url ?o = Never \<longrightarrow>
      fst (captureScreenshot E url ov) = None \<and>
      (\<forall>e \<in> set (snd (captureScreenshot E url ov)). \<not> is_close e)"
    using try_block_no_close [of _ E url ?o]
    by (auto simp: captureScreenshot_not_null tcf_pending)
  have 2: "\<forall>d img. ov \<noteq> Opt_null \<and> primary E url ?o = Returns d img \<and> closes_settle E \<longrightarrow>
      (\<exists>t. fst (captureScreenshot E url ov) = Some (t, Inr img))"
    by (auto simp: captureScreenshot_not_null tcf_resolved after_finally_settles)
  have 3: "\<forall>d m. ov \<noteq> Opt_null \<and> primary E url ?o = Throws d m \<and> closes_settle E \<longrightarrow>
      (\<exists>t. fst (captureScreenshot E url ov) = Some (t, Inl (''Screenshot failed: '' @ m)))"
    by (auto simp: captureScreenshot_not_null tcf_rejected after_finally_settles)
  have calls: "snd (try_catch_finally E url ?o) = trace (snd (finally_block E ?r))"
    if "primary E url ?o \<noteq> Never"
    using that
    by (cases "primary E url ?o") (simp_all add: tcf_resolved tcf_rejected after_finally_calls)
  have 4: "ov \<noteq> Opt_null \<and> primary E url ?o \<noteq> Never \<and> closes_return E \<longrightarrow>
      (\<exists>work. snd (captureScreenshot E url ov) = work @ expected_closes E ?o \<and>
         (\<forall>e \<in> set work. \<not> is_close e))"
  proof (intro impI, elim conjE)
    assume n: "ov \<noteq> Opt_null" and p: "primary E url ?o \<noteq> Never" and c: "closes_return E"
    have "snd (captureScreenshot E url ov) = trace ?r @ expected_closes E ?o"
      using n calls [OF p] finally_block_returns [OF c, of ?r]
      by (simp add: captureScreenshot_not_null closes_expected)
    then show "\<exists>work. snd (captureScreenshot E url ov) = work @ expected_closes E ?o \<and>
         (\<forall>e \<in> set work. \<not> is_close e)"
      using try_block_no_close [of _ E url ?o] by blast
  qed
  have 5: "\<forall>d m. (PageClose \<in> set (snd (captureScreenshot E url ov)) \<and>
              page_close E = Throws d m) \<or>
           (ContextClose \<in> set (snd (captureScreenshot E url ov)) \<and>
              context_close E = Throws d m) \<or>
           (BrowserClose \<in> set (snd (captureScreenshot E url ov)) \<and>
              browser_close E = Throws d m)
      \<longrightarrow> Warn m \<in> set (snd (captureScreenshot E url ov))"
  proof (intro allI)
    fix d m
    have w: "PageClose \<notin> set (trace ?r)" "ContextClose \<notin> set (trace ?r)"
      "BrowserClose \<notin> set (trace ?r)"
      using try_block_no_close [of _ E url ?o] by fastforce+
    show "(PageClose \<in> set (snd (captureScreenshot E url ov)) \<and>
              page_close E = Throws d m) \<or>
           (ContextClose \<in> set (snd (captureScreenshot E url ov)) \<and>
              context_close E = Throws d m) \<or>
           (BrowserClose \<in> set (snd (captureScreenshot E url ov)) \<and>
              browser_close E = Throws d m)
      \<longrightarrow> Warn m \<in> set (snd (captureScreenshot E url ov))"
    proof (cases "ov = Opt_null \<or> primary E url ?o = Never")
      case True
      show ?thesis
      proof (cases "ov = Opt_null")
        case True
        then show ?thesis by simp
      next
        case False
        with True have "snd (captureScreenshot E url ov) = trace ?r"
          by (simp add: captureScreenshot_not_null tcf_pending)
        then show ?thesis using w by simp
      qed
    next
      case False
      then have e: "snd (captureScreenshot E url ov) = trace (snd (finally_block E ?r))"
        using calls by (simp add: captureScreenshot_not_null)
      obtain cl where cl: "trace (snd (finally_block E ?r)) = trace ?r @ cl"
        "(PageClose \<in> set cl \<and> page_close E = Throws d m) \<or>
         (ContextClose \<in> set cl \<and> context_close E = Throws d m) \<or>
         (BrowserClose \<in> set cl \<and> browser_close E = Throws d m)
         \<longrightarrow> Warn m \<in> set cl"
        using finally_block_warning [of E ?r d m] by blast
      then show ?thesis using w e by auto
    qed
  qed
  have 6: "captureScreenshot E url Opt_null = (Some (0, Inl (null_options_message E)), [])"
    by simp
  show ?thesis by (intro conjI 1 2 3 4 5 6)
qed

lemmas primary_defs =
  primary_def and_then_def createBrowser_def dflt_def playwrightWaitUntil_def
  make_screenshotOptions_def got_browser_def got_context_def got_page_def
  expected_closes_def closes_settle_def closes_return_def

theorem release_of_the_session_witness:
  "primary sample (Str ''https://example.com'') no_options = Returns 3320 [137, 80] \<and>
   (\<exists>t. fst (captureScreenshot sample (Str ''https://example.com'') (Opt_object no_options)) =
      Some (t, Inr [137, 80])) \<and>
   primary (sample\<lparr>goto := (\<lambda>url wu t. Never)\<rparr>) (Str ''https://example.com'') no_options
     = Never \<and>
   fst (captureScreenshot (sample\<lparr>goto := (\<lambda>url wu t. Never)\<rparr>)
      (Str ''https://example.com'') Opt_undefined) = None \<and>
   filter is_close (snd (captureScreenshot (sample\<lparr>goto := (\<lambda>url wu t. Never)\<rparr>)
      (Str ''https://example.com'') Opt_undefined)) = [] \<and>
   primary (sample\<lparr>goto := (\<lambda>url wu t. Throws 30000 ''Timeout 30000ms exceeded.'')\<rparr>)
      (Str ''https://example.com'') no_options =
     Throws 30900 ''Timeout 30000ms exceeded.'' \<and>
   (\<exists>t. fst (captureScreenshot
        (sample\<lparr>goto := (\<lambda>url wu t. Throws 30000 ''Timeout 30000ms exceeded.'')\<rparr>)
        (Str ''https://example.com'') (Opt_object no_options)) =
      Some (t, Inl ''Screenshot failed: Timeout 30000ms exceeded.'')) \<and>
   expected_closes (sample\<lparr>newContext := (\<lambda>w h. Throws 10 ''Target closed'')\<rparr>) no_options =
     [BrowserClose] \<and>
   (\<exists>work. snd (captureScreenshot (sample\<lparr>newContext := (\<lambda>w h. Throws 10 ''Target closed'')\<rparr>)
        (Str ''https://example.com'') (Opt_object no_options)) = work @ [BrowserClose] \<and>
      filter is_close work = []) \<and>
   snd (captureScreenshot (sample\<lparr>newContext := (\<lambda>w h. Throws 10 ''Target closed'')\<rparr>)
        (Str ''https://example.com'') (Opt_object no_options)) =
     [Launch, NewContext (Number 1200) (Number 800), BrowserClose] \<and>
   PageClose \<in> set (snd (captureScreenshot (sample\<lparr>page_close := Throws 5 ''Target closed''\<rparr>)
        (Str ''https://example.com'') (Opt_object no_options))) \<and>
   Warn ''Target closed''
     \<in> set (snd (captureScreenshot (sample\<lparr>page_close := Throws 5 ''Target closed''\<rparr>)
        (Str ''https://example.com'') (Opt_object no_options))) \<and>
   captureScreenshot sample (Str ''https://example.com'') Opt_null =
     (Some (0, Inl ''Cannot destructure property width of options as it is null.''), [])"
proof -
  let ?u = "Str ''https://example.com''"
  let ?N = "sample\<lparr>goto := (\<lambda>url wu t. Never)\<rparr>"
  let ?T = "sample\<lparr>goto := (\<lambda>url wu t. Throws 30000 ''Timeout 30000ms exceeded.'')\<rparr>"
  let ?C = "sample\<lparr>newContext := (\<lambda>w h. Throws 10 ''Target closed'')\<rparr>"
  let ?P = "sample\<lparr>page_close := Throws 5 ''Target closed''\<rparr>"
  have p0: "primary sample ?u no_options = Returns 3320 [137, 80]"
    and pN: "primary ?N ?u no_options = Never"
    and pT: "primary ?T ?u no_options = Throws 30900 ''Timeout 30000ms exceeded.''"
    and pC: "primary ?C ?u no_options \<noteq> Never"
    by (simp_all add: primary_defs sample_defs)
  have cs: "closes_settle sample" "closes_settle ?T" "closes_return ?C"
    by (simp_all add: primary_defs sample_defs)
  have ex: "expected_closes ?C no_options = [BrowserClose]"
    by (simp add: primary_defs sample_defs)
  have o: "options_of (Opt_object no_options) = no_options" "options_of Opt_undefined = no_options"
    "Opt_object no_options \<noteq> Opt_null" "Opt_undefined \<noteq> Opt_null"
    by simp_all
  from release_of_the_session [where E = sample and url = ?u and ov = "Opt_object no_options",
    THEN conjunct2, THEN conjunct1, THEN spec, THEN spec, THEN mp] o p0 cs
  have 1: "\<exists>t. fst (captureScreenshot sample ?u (Opt_object no_options)) =
      Some (t, Inr [137, 80])"
    by simp
  from release_of_the_session [where E = ?N and url = ?u and ov = Opt_undefined,
    THEN conjunct1, THEN mp] o pN
  have 2: "fst (captureScreenshot ?N ?u Opt_undefined) = None \<and>
      (\<forall>e \<in> set (snd (captureScreenshot ?N ?u Opt_undefined)). \<not> is_close e)"
    by simp
  then have 2: "fst (captureScreenshot ?N ?u Opt_undefined) = None"
    "filter is_close (snd (captureScreenshot ?N ?u Opt_undefined)) = []"
    by (simp_all add: filter_empty_conv)
  from release_of_the_session [where E = ?T and url = ?u and ov = "Opt_object no_options",
    THEN conjunct2, THEN conjunct2, THEN conjunct1, THEN spec, THEN spec, THEN mp] o pT cs
  have 3: "\<exists>t. fst (captureScreenshot ?T ?u (Opt_object no_options)) =
      Some (t, Inl ''Screenshot failed: Timeout 30000ms exceeded.'')"
    by simp
  from release_of_the_session [where E = ?C and url = ?u and ov = "Opt_object no_options",
    THEN conjunct2, THEN conjunct2, THEN conjunct2, THEN conjunct1, THEN mp] o pC cs ex
  have 4: "\<exists>work. snd (captureScreenshot ?C ?u (Opt_object no_options)) = work @ [BrowserClose] \<and>
      filter is_close work = []"
    by (simp add: filter_empty_conv)
  have ev: "snd (captureScreenshot ?C ?u (Opt_object no_options)) =
     [Launch, NewContext (Number 1200) (Number 800), BrowserClose]"
    by (simp add: run_defs sample_defs)
  have c: "PageClose \<in> set (snd (captureScreenshot ?P ?u (Opt_object no_options))) \<and>
      page_close ?P = Throws 5 ''Target closed''"
    by (simp add: run_defs sample_defs)
  from release_of_the_session [where E = ?P and url = ?u and ov = "Opt_object no_options",
    THEN conjunct2, THEN conjunct2, THEN conjunct2, THEN conjunct2, THEN conjunct1,
    THEN spec, THEN spec, THEN mp, OF disjI1, OF c]
  have 5: "Warn ''Target closed'' \<in> set (snd (captureScreenshot ?P ?u (Opt_object no_options)))" .
  from release_of_the_session [where E = sample and url = ?u, THEN conjunct2, THEN conjunct2,
    THEN conjunct2, THEN conjunct2, THEN conjunct2]
  have 6: "captureScreenshot sample ?u Opt_null =
     (Some (0, Inl ''Cannot destructure property width of options as it is null.''), [])"
    by (simp add: sample_def)
  show ?thesis by (intro conjI p0 1 pN 2 pT 3 ex 4 ev c [THEN conjunct1] 5 6)
qed

text \<open>
  The timer answers the request but cancels nothing. With a navigation that never settles
  (the request below disables the navigation timeout), the browser, the context and the
  page are acquired and no close is ever called.
\<close>

theorem abandoned_session_counterexample:
  "get_screenshot (sample\<lparr>goto := (\<lambda>url wu t. Never)\<rparr>)
      (no_query\<lparr>q_url := Some ''https://example.com'', q_timeout := Some ''0''\<rparr>) =
     (failed ''Screenshot request timeout'',
      [Launch, NewContext (Number 1200) (Number 800), NewPage,
       Goto (Str ''https://example.com'') ''networkidle'' (Number 0)])"
  by (simp add: run_defs sample_defs parse_samples)

text \<open>
  The three closes share one \<open>try\<close>: when closing the page fails, the warning is logged
  and the context and the browser are not closed.
\<close>

lemma cleanup_stops_at_first_failure:
  "captureScreenshot (sample\<lparr>page_close := Throws 5 ''Target closed''\<rparr>)
      (Str ''https://example.com'') (Opt_object no_options) =
     (Some (3325, Inr [137, 80]),
      [Launch, NewContext (Number 1200) (Number 800), NewPage,
       Goto (Str ''https://example.com'') ''networkidle'' (Number 30000),
       Screenshot \<lparr>so_type = ''png'', so_fullPage = False,
         so_clip = Some \<lparr>clip_x = 0, clip_y = 0, clip_width = Number 1200,
                          clip_height = Number 800\<rparr>\<rparr>,
       Webp [137, 80, 78, 71] (Number 80), PageClose, Warn ''Target closed''])"
  by (simp add: run_defs sample_defs)

text \<open>
  A close that never settles keeps the promise from settling, after the closes before it
  have been called.
\<close>

lemma close_that_never_settles:
  "captureScreenshot (sample\<lparr>browser_close := Never\<rparr>)
      (Str ''https://example.com'') (Opt_object no_options) =
     (None,
      [Launch, NewContext (Number 1200) (Number 800), NewPage,
       Goto (Str ''https://example.com'') ''networkidle'' (Number 30000),
       Screenshot \<lparr>so_type = ''png'', so_fullPage = False,
         so_clip = Some \<lparr>clip_x = 0, clip_y = 0, clip_width = Number 1200,
                          clip_height = Number 800\<rparr>\<rparr>,
       Webp [137, 80, 78, 71] (Number 80), PageClose, ContextClose, BrowserClose])"
  by (simp add: run_defs sample_defs)

section \<open>What the handlers answer\<close>

lemma get_rejected:
  "\<not> accepted E q \<Longrightarrow> status (fst (get_screenshot E q)) = 400 \<and> snd (get_screenshot E q) = []"
  by (auto simp: accepted_def get_screenshot_def Let_def)

lemma get_accepted:
  assumes "accepted E q"
  shows "fst (get_screenshot E q) =
      (case race (fst (captureScreenshot E (param (q_url q)) (Opt_object (capture_options q)))) of
         Inr imageBuffer \<Rightarrow>
           if header_value_ok (param (q_url q)) then
             Img [ContentType ''image/webp'', ContentLength (length imageBuffer),
                  CacheControl ''public, max-age=3600'', XScreenshotURL (param (q_url q)),
                  XScreenshotDimensions (widthNum q) (heightNum q)] imageBuffer
           else failed invalid_header_message
       | Inl message \<Rightarrow> failed message)"
    and "snd (get_screenshot E q) = snd (captureScreenshot E (param (q_url q)) (Opt_object (capture_options q)))"
  using assms by (auto simp: accepted_def get_screenshot_def Let_def split: prod.splits)

lemma get_accepted_status:
  "accepted E q \<Longrightarrow>
     (status (fst (get_screenshot E q)) = 200 \<and>
      content_type (fst (get_screenshot E q)) = Some ''image/webp'') \<or>
     status (fst (get_screenshot E q)) = 500"
  by (simp add: get_accepted(1) failed_def split: sum.splits)

lemma get_status_400: "(status (fst (get_screenshot E q)) = 400) = (\<not> accepted E q)"
  using get_rejected [of E q] get_accepted_status [of E q] by auto

lemma get_calls:
  "ev \<in> set (snd (get_screenshot E q)) \<Longrightarrow>
     accepted E q \<and> ev \<in> set (snd (captureScreenshot E (param (q_url q)) (Opt_object (capture_options q))))"
  using get_rejected [of E q] get_accepted(2) [of E q] by (cases "accepted E q") auto

lemma post_rejected:
  "\<not> (truthy (b_url b) \<and> isValidUrl E (b_url b)) \<Longrightarrow>
     status (fst (post_screenshot E b)) = 400 \<and> snd (post_screenshot E b) = []"
  by (auto simp: post_screenshot_def Let_def)

lemma post_accepted:
  assumes "truthy (b_url b)" "isValidUrl E (b_url b)"
  shows "fst (post_screenshot E b) =
      (case race (fst (captureScreenshot E (b_url b) (b_options b))) of
         Inr imageBuffer \<Rightarrow>
           Img [ContentType ''image/webp'', ContentLength (length imageBuffer),
                CacheControl ''public, max-age=3600''] imageBuffer
       | Inl message \<Rightarrow> failed message)"
    and "snd (post_screenshot E b) = snd (captureScreenshot E (b_url b) (b_options b))"
  using assms
  by (auto simp: post_screenshot_def Let_def captureScreenshot_default split: prod.splits)

lemma post_accepted_status:
  "truthy (b_url b) \<Longrightarrow> isValidUrl E (b_url b) \<Longrightarrow>
     (status (fst (post_screenshot E b)) = 200 \<and>
      content_type (fst (post_screenshot E b)) = Some ''image/webp'') \<or>
     status (fst (post_screenshot E b)) = 500"
  by (simp add: post_accepted(1) failed_def split: sum.splits)

lemma post_status_400:
  "(status (fst (post_screenshot E b)) = 400) = (\<not> (truthy (b_url b) \<and> isValidUrl E (b_url b)))"
  using post_rejected [of b E] post_accepted_status [of b E] by auto

lemma post_calls:
  "ev \<in> set (snd (post_screenshot E b)) \<Longrightarrow>
     ev \<in> set (snd (captureScreenshot E (b_url b) (b_options b)))"
  using post_rejected [of b E] post_accepted(2) [of b E]
  by (cases "truthy (b_url b) \<and> isValidUrl E (b_url b)") auto

lemma dflt_or_else: "d \<noteq> Undefined \<Longrightarrow> dflt (or_else v d) d' = or_else v d"
  by (cases v) (auto simp: dflt_def or_else_def)

section \<open>Validation of the request\<close>

text \<open>
  Claim C4. A request whose \<open>url\<close> is missing (or empty, or any other falsy value in a
  JSON body) is answered with status 400 and a message that names the URL, on both
  routes, and no call to the browser or the encoder is made.
\<close>

theorem missing_url_is_a_client_error:
  "(\<not> truthy (param (q_url q)) \<longrightarrow>
      get_screenshot E q =
        (Json 400 [(''error'', ''URL parameter is required''),
                   (''example'', ''/screenshot?url=https://example.com&width=1200&height=800'')],
         [])) \<and>
   (\<not> truthy (b_url b) \<longrightarrow>
      post_screenshot E b = (Json 400 [(''error'', ''URL is required in request body'')], []))"
  by (simp add: get_screenshot_def post_screenshot_def)

theorem missing_url_is_a_client_error_witness:
  "get_screenshot sample no_query =
     (Json 400 [(''error'', ''URL parameter is required''),
                (''example'', ''/screenshot?url=https://example.com&width=1200&height=800'')],
      []) \<and>
   status (fst (get_screenshot sample no_query)) = 400 \<and>
   post_screenshot sample \<lparr>b_url = Undefined, b_options = Opt_object no_options\<rparr> =
     (Json 400 [(''error'', ''URL is required in request body'')], [])"
proof -
  have g: "\<not> truthy (param (q_url no_query))" by (simp add: no_query_def)
  have p: "\<not> truthy (b_url \<lparr>b_url = Undefined, b_options = Opt_object no_options\<rparr>)" by simp
  show ?thesis
    using missing_url_is_a_client_error
      [of no_query sample "\<lparr>b_url = Undefined, b_options = Opt_object no_options\<rparr>"] g p
    by simp
qed

text \<open>
  Claim C9. A URL that is present is accepted exactly when the URL constructor parses it
  and its protocol is \<open>http:\<close> or \<open>https:\<close>; otherwise the answer is status 400 with
  the invalid-format message, and no call to the browser or the encoder is made.
\<close>

theorem url_accepted_iff_http_or_https:
  "(q_url q = Some s \<and> s \<noteq> [] \<longrightarrow>
      (fst (get_screenshot E q) =
         Json 400 [(''error'', ''Invalid URL format. Must include http:// or https://'')])
       = (url_protocol E (Str s) \<noteq> Some ''http:'' \<and> url_protocol E (Str s) \<noteq> Some ''https:'')
      \<and> (url_protocol E (Str s) \<noteq> Some ''http:'' \<and> url_protocol E (Str s) \<noteq> Some ''https:''
           \<longrightarrow> snd (get_screenshot E q) = [])) \<and>
   (truthy (b_url b) \<longrightarrow>
      (fst (post_screenshot E b) =
         Json 400 [(''error'', ''Invalid URL format. Must include http:// or https://'')])
       = (url_protocol E (b_url b) \<noteq> Some ''http:'' \<and> url_protocol E (b_url b) \<noteq> Some ''https:'')
      \<and> (url_protocol E (b_url b) \<noteq> Some ''http:'' \<and> url_protocol E (b_url b) \<noteq> Some ''https:''
           \<longrightarrow> snd (post_screenshot E b) = []))"
  by (auto simp: get_screenshot_def post_screenshot_def isValidUrl_def failed_def Let_def
      split: option.splits prod.splits sum.splits)

theorem url_accepted_iff_http_or_https_witness:
  "fst (get_screenshot sample (no_query\<lparr>q_url := Some ''ftp://example.com/file''\<rparr>)) =
     Json 400 [(''error'', ''Invalid URL format. Must include http:// or https://'')] \<and>
   snd (get_screenshot sample (no_query\<lparr>q_url := Some ''ftp://example.com/file''\<rparr>)) = [] \<and>
   url_protocol sample (Str ''ftp://example.com/file'') = Some ''ftp:'' \<and>
   fst (post_screenshot sample \<lparr>b_url = Str ''not-a-url'', b_options = Opt_object no_options\<rparr>) =
     Json 400 [(''error'', ''Invalid URL format. Must include http:// or https://'')] \<and>
   url_protocol sample (Str ''not-a-url'') = None"
proof -
  have g: "q_url (no_query\<lparr>q_url := Some ''ftp://example.com/file''\<rparr>) = Some ''ftp://example.com/file''"
    "''ftp://example.com/file'' \<noteq> []"
    by simp_all
  have p: "truthy (b_url \<lparr>b_url = Str ''not-a-url'', b_options = Opt_object no_options\<rparr>)" by simp
  have u: "url_protocol sample (Str ''ftp://example.com/file'') = Some ''ftp:''"
    "url_protocol sample (Str ''not-a-url'') = None"
    by (simp_all add: sample_def sample_protocol_def)
  show ?thesis
    using url_accepted_iff_http_or_https
      [of "no_query\<lparr>q_url := Some ''ftp://example.com/file''\<rparr>" "''ftp://example.com/file''"
          sample "\<lparr>b_url = Str ''not-a-url'', b_options = Opt_object no_options\<rparr>"] g p u
    by simp
qed

lemma capture_options_cong:
  assumes "widthNum q = widthNum q'" "heightNum q = heightNum q'"
    "q_quality q = q_quality q'" "q_fullPage q = q_fullPage q'"
    "q_waitUntil q = q_waitUntil q'" "q_timeout q = q_timeout q'"
  shows "capture_options q = capture_options q'"
  using assms by (simp add: capture_options_def)

lemma get_screenshot_cong:
  assumes "q_url q = q_url q'" "widthNum q = widthNum q'" "heightNum q = heightNum q'"
    "q_quality q = q_quality q'" "q_fullPage q = q_fullPage q'"
    "q_waitUntil q = q_waitUntil q'" "q_timeout q = q_timeout q'"
  shows "get_screenshot E q = get_screenshot E q'"
  by (simp only: get_screenshot_def assms(1-3) capture_options_cong [OF assms(2-7)])

text \<open>
  Claim C2, as the code has it. On the GET route, with a URL that passed its checks: a
  width whose \<open>parseInt\<close> is a nonzero integer outside 100 to 4000 is answered with status
  400 and the width message, and a height of that kind (the width being in range) with
  status 400 and the height message, before any call to the browser; a width or height
  that \<open>parseInt\<close> cannot read is not rejected: the request is treated as if the
  parameter were absent, so the default 1200 or 800 is used.
\<close>

theorem get_rejects_out_of_range_dimensions:
  assumes "truthy (param (q_url q))" and "isValidUrl E (param (q_url q))"
  shows "(\<forall>w. parseInt (param (q_width q)) = Number w \<and> w \<noteq> 0 \<and> (w < 100 \<or> 4000 < w) \<longrightarrow>
            get_screenshot E q =
              (Json 400 [(''error'', ''Width must be between 100 and 4000 pixels'')], [])) \<and>
         (\<forall>h. parseInt (param (q_height q)) = Number h \<and> h \<noteq> 0 \<and> (h < 100 \<or> 4000 < h) \<and>
              100 \<le> widthNum q \<and> widthNum q \<le> 4000 \<longrightarrow>
            get_screenshot E q =
              (Json 400 [(''error'', ''Height must be between 100 and 4000 pixels'')], [])) \<and>
         (parseInt (param (q_width q)) = NaN \<longrightarrow>
            widthNum q = 1200 \<and> get_screenshot E q = get_screenshot E (q\<lparr>q_width := None\<rparr>)) \<and>
         (parseInt (param (q_height q)) = NaN \<longrightarrow>
            heightNum q = 800 \<and> get_screenshot E q = get_screenshot E (q\<lparr>q_height := None\<rparr>))"
proof -
  have w: "\<And>w. parseInt (param (q_width q)) = Number w \<Longrightarrow> w \<noteq> 0 \<Longrightarrow> widthNum q = w"
    by (simp add: widthNum_def or_number_def)
  have h: "\<And>h. parseInt (param (q_height q)) = Number h \<Longrightarrow> h \<noteq> 0 \<Longrightarrow> heightNum q = h"
    by (simp add: heightNum_def or_number_def)
  have a: "\<forall>w. parseInt (param (q_width q)) = Number w \<and> w \<noteq> 0 \<and> (w < 100 \<or> 4000 < w) \<longrightarrow>
            get_screenshot E q =
              (Json 400 [(''error'', ''Width must be between 100 and 4000 pixels'')], [])"
  proof (intro allI impI)
    fix w
    assume "parseInt (param (q_width q)) = Number w \<and> w \<noteq> 0 \<and> (w < 100 \<or> 4000 < w)"
    then have "widthNum q < 100 \<or> 4000 < widthNum q" using w by auto
    then show "get_screenshot E q =
        (Json 400 [(''error'', ''Width must be between 100 and 4000 pixels'')], [])"
      using assms by (simp add: get_screenshot_def)
  qed
  have b: "\<forall>h. parseInt (param (q_height q)) = Number h \<and> h \<noteq> 0 \<and> (h < 100 \<or> 4000 < h) \<and>
              100 \<le> widthNum q \<and> widthNum q \<le> 4000 \<longrightarrow>
            get_screenshot E q =
              (Json 400 [(''error'', ''Height must be between 100 and 4000 pixels'')], [])"
  proof (intro allI impI)
    fix h'
    assume *: "parseInt (param (q_height q)) = Number h' \<and> h' \<noteq> 0 \<and> (h' < 100 \<or> 4000 < h') \<and>
              100 \<le> widthNum q \<and> widthNum q \<le> 4000"
    then have "heightNum q < 100 \<or> 4000 < heightNum q" using h by auto
    moreover from * have "\<not> (widthNum q < 100 \<or> 4000 < widthNum q)" by auto
    ultimately show "get_screenshot E q =
        (Json 400 [(''error'', ''Height must be between 100 and 4000 pixels'')], [])"
      using assms by (simp add: get_screenshot_def)
  qed
  have c: "parseInt (param (q_width q)) = NaN \<longrightarrow>
            widthNum q = 1200 \<and> get_screenshot E q = get_screenshot E (q\<lparr>q_width := None\<rparr>)"
  proof
    assume n: "parseInt (param (q_width q)) = NaN"
    have "widthNum q = widthNum (q\<lparr>q_width := None\<rparr>)" "widthNum q = 1200"
      using n by (simp_all add: widthNum_def or_number_def)
    moreover have "heightNum q = heightNum (q\<lparr>q_width := None\<rparr>)"
      by (simp add: heightNum_def)
    ultimately show "widthNum q = 1200 \<and>
        get_screenshot E q = get_screenshot E (q\<lparr>q_width := None\<rparr>)"
      using get_screenshot_cong [of q "q\<lparr>q_width := None\<rparr>" E] by simp
  qed
  have d: "parseInt (param (q_height q)) = NaN \<longrightarrow>
            heightNum q = 800 \<and> get_screenshot E q = get_screenshot E (q\<lparr>q_height := None\<rparr>)"
  proof
    assume n: "parseInt (param (q_height q)) = NaN"
    have "heightNum q = heightNum (q\<lparr>q_height := None\<rparr>)" "heightNum q = 800"
      using n by (simp_all add: heightNum_def or_number_def)
    moreover have "widthNum q = widthNum (q\<lparr>q_height := None\<rparr>)"
      by (simp add: widthNum_def)
    ultimately show "heightNum q = 800 \<and>
        get_screenshot E q = get_screenshot E (q\<lparr>q_height := None\<rparr>)"
      using get_screenshot_cong [of q "q\<lparr>q_height := None\<rparr>" E] by simp
  qed
  from a b c d show ?thesis by blast
qed

theorem get_rejects_out_of_range_dimensions_witness:
  "get_screenshot sample
      (no_query\<lparr>q_url := Some ''https://example.com'', q_width := Some ''5000'',
         q_height := Some ''5000''\<rparr>) =
     (Json 400 [(''error'', ''Width must be between 100 and 4000 pixels'')], []) \<and>
   parseInt (Str ''5000'') = Number 5000 \<and>
   get_screenshot sample
      (no_query\<lparr>q_url := Some ''https://example.com'', q_width := Some ''800'',
         q_height := Some ''99''\<rparr>) =
     (Json 400 [(''error'', ''Height must be between 100 and 4000 pixels'')], []) \<and>
   parseInt (Str ''99'') = Number 99 \<and>
   parseInt (Str ''tall'') = NaN \<and>
   get_screenshot sample
      (no_query\<lparr>q_url := Some ''https://example.com'', q_height := Some ''tall''\<rparr>) =
     get_screenshot sample
      (no_query\<lparr>q_url := Some ''https://example.com'', q_height := Some ''tall'',
         q_height := None\<rparr>) \<and>
   parseInt (Str ''abc'') = NaN \<and>
   widthNum (no_query\<lparr>q_url := Some ''https://example.com'', q_width := Some ''abc''\<rparr>) = 1200"
proof -
  let ?a = "no_query\<lparr>q_url := Some ''https://example.com'', q_width := Some ''5000'',
         q_height := Some ''5000''\<rparr>"
  let ?b = "no_query\<lparr>q_url := Some ''https://example.com'', q_width := Some ''800'',
         q_height := Some ''99''\<rparr>"
  let ?c = "no_query\<lparr>q_url := Some ''https://example.com'', q_height := Some ''tall''\<rparr>"
  let ?d = "no_query\<lparr>q_url := Some ''https://example.com'', q_width := Some ''abc''\<rparr>"
  have v: "isValidUrl sample (Str ''https://example.com'')"
    by (simp add: isValidUrl_def sample_def sample_protocol_def)
  have ta: "truthy (param (q_url ?a))" "isValidUrl sample (param (q_url ?a))"
    and tb: "truthy (param (q_url ?b))" "isValidUrl sample (param (q_url ?b))"
    and tc: "truthy (param (q_url ?c))" "isValidUrl sample (param (q_url ?c))"
    and td: "truthy (param (q_url ?d))" "isValidUrl sample (param (q_url ?d))"
    using v by simp_all
  have p: "parseInt (Str ''5000'') = Number 5000" "parseInt (Str ''99'') = Number 99"
    "parseInt (Str ''tall'') = NaN" "parseInt (Str ''abc'') = NaN"
    by (simp_all add: parse_samples)
  have wb: "widthNum ?b = 800" by (simp add: widthNum_def or_number_def parse_samples)
  have 1: "get_screenshot sample ?a =
     (Json 400 [(''error'', ''Width must be between 100 and 4000 pixels'')], [])"
    using get_rejects_out_of_range_dimensions [OF ta] by (simp add: parse_samples)
  have 2: "get_screenshot sample ?b =
     (Json 400 [(''error'', ''Height must be between 100 and 4000 pixels'')], [])"
    using get_rejects_out_of_range_dimensions [OF tb] wb by (simp add: parse_samples)
  have 3: "get_screenshot sample ?c = get_screenshot sample (?c\<lparr>q_height := None\<rparr>)"
    using get_rejects_out_of_range_dimensions [OF tc] by (simp add: parse_samples)
  have 4: "widthNum ?d = 1200"
    using get_rejects_out_of_range_dimensions [OF td] by (simp add: parse_samples)
  show ?thesis by (intro conjI 1 2 3 4 p)
qed

text \<open>
  As the specification states it, the claim fails: a width that is not a number is not
  rejected. The capture runs with the default width of 1200.
\<close>

theorem non_numeric_width_counterexample:
  "get_screenshot sample (no_query\<lparr>q_url := Some ''https://example.com'', q_width := Some ''abc''\<rparr>) =
     (Img [ContentType ''image/webp'', ContentLength 2, CacheControl ''public, max-age=3600'',
           XScreenshotURL (Str ''https://example.com''), XScreenshotDimensions 1200 800]
        [137, 80],
      [Launch, NewContext (Number 1200) (Number 800), NewPage,
       Goto (Str ''https://example.com'') ''networkidle'' (Number 30000),
       Screenshot \<lparr>so_type = ''png'', so_fullPage = False,
         so_clip = Some \<lparr>clip_x = 0, clip_y = 0, clip_width = Number 1200,
                          clip_height = Number 800\<rparr>\<rparr>,
       Webp [137, 80, 78, 71] (Number 80), PageClose, ContextClose, BrowserClose])"
  by (simp add: run_defs sample_defs parse_samples)

text \<open>
  The POST route hands the options of the body to \<open>captureScreenshot\<close> as they are: a width
  of 5000 reaches the browser.
\<close>

lemma post_does_not_check_dimensions:
  "post_screenshot sample
      \<lparr>b_url = Str ''https://example.com'', b_options = Opt_object (no_options\<lparr>width := Num 5000\<rparr>)\<rparr> =
     (Img [ContentType ''image/webp'', ContentLength 2, CacheControl ''public, max-age=3600'']
        [137, 80],
      [Launch, NewContext (Number 5000) (Number 800), NewPage,
       Goto (Str ''https://example.com'') ''networkidle'' (Number 30000),
       Screenshot \<lparr>so_type = ''png'', so_fullPage = False,
         so_clip = Some \<lparr>clip_x = 0, clip_y = 0, clip_width = Number 5000,
                          clip_height = Number 800\<rparr>\<rparr>,
       Webp [137, 80, 78, 71] (Number 80), PageClose, ContextClose, BrowserClose])"
  by (simp add: run_defs sample_defs)

text \<open>
  Claim C6. A request with a URL the URL check accepts and with width and height absent
  or reading as integers from 100 to 4000 (whatever its quality) is answered with the
  image, declared as \<open>image/webp\<close>, or with status 500; never with a 4xx status. On the
  POST route the URL check is the only one.
\<close>

theorem valid_request_never_client_error:
  "(q_url q = Some s \<and> s \<noteq> [] \<and> isValidUrl E (Str s) \<and>
    (case q_width q of None \<Rightarrow> True
     | Some x \<Rightarrow> (case parseInt_string x of NaN \<Rightarrow> False | Number n \<Rightarrow> 100 \<le> n \<and> n \<le> 4000)) \<and>
    (case q_height q of None \<Rightarrow> True
     | Some x \<Rightarrow> (case parseInt_string x of NaN \<Rightarrow> False | Number n \<Rightarrow> 100 \<le> n \<and> n \<le> 4000))
    \<longrightarrow> (status (fst (get_screenshot E q)) = 200 \<and>
          content_type (fst (get_screenshot E q)) = Some ''image/webp'') \<or>
         status (fst (get_screenshot E q)) = 500) \<and>
   (truthy (b_url b) \<and> isValidUrl E (b_url b)
    \<longrightarrow> (status (fst (post_screenshot E b)) = 200 \<and>
          content_type (fst (post_screenshot E b)) = Some ''image/webp'') \<or>
         status (fst (post_screenshot E b)) = 500)"
proof -
  have "accepted E q"
    if "q_url q = Some s" "s \<noteq> []" "isValidUrl E (Str s)"
      "case q_width q of None \<Rightarrow> True
       | Some x \<Rightarrow> (case parseInt_string x of NaN \<Rightarrow> False | Number n \<Rightarrow> 100 \<le> n \<and> n \<le> 4000)"
      "case q_height q of None \<Rightarrow> True
       | Some x \<Rightarrow> (case parseInt_string x of NaN \<Rightarrow> False | Number n \<Rightarrow> 100 \<le> n \<and> n \<le> 4000)"
  proof -
    have "100 \<le> widthNum q \<and> widthNum q \<le> 4000"
      using that(4) by (auto simp: widthNum_def or_number_def split: option.splits jsnum.splits)
    moreover have "100 \<le> heightNum q \<and> heightNum q \<le> 4000"
      using that(5) by (auto simp: heightNum_def or_number_def split: option.splits jsnum.splits)
    ultimately show ?thesis using that(1-3) by (simp add: accepted_def)
  qed
  then show ?thesis
    using get_accepted_status [where E = E and q = q]
      post_accepted_status [where E = E and b = b] by blast
qed

theorem valid_request_never_client_error_witness:
  "status (fst (get_screenshot sample
      (no_query\<lparr>q_url := Some ''https://example.com'', q_width := Some ''800''\<rparr>))) = 200 \<and>
   content_type (fst (get_screenshot sample
      (no_query\<lparr>q_url := Some ''https://example.com'', q_width := Some ''800''\<rparr>))) =
     Some ''image/webp'' \<and>
   status (fst (post_screenshot (sample\<lparr>launch := Throws 30000 ''Timeout 30000ms exceeded''\<rparr>)
      \<lparr>b_url = Str ''https://example.com'', b_options = Opt_object no_options\<rparr>)) = 500"
proof -
  let ?q = "no_query\<lparr>q_url := Some ''https://example.com'', q_width := Some ''800''\<rparr>"
  let ?E = "sample\<lparr>launch := Throws 30000 ''Timeout 30000ms exceeded''\<rparr>"
  let ?b = "\<lparr>b_url = Str ''https://example.com'', b_options = Opt_object no_options\<rparr>"
  have g: "q_url ?q = Some ''https://example.com'' \<and> ''https://example.com'' \<noteq> [] \<and>
      isValidUrl sample (Str ''https://example.com'') \<and>
      (case q_width ?q of None \<Rightarrow> True
       | Some x \<Rightarrow> (case parseInt_string x of NaN \<Rightarrow> False | Number n \<Rightarrow> 100 \<le> n \<and> n \<le> 4000)) \<and>
      (case q_height ?q of None \<Rightarrow> True
       | Some x \<Rightarrow> (case parseInt_string x of NaN \<Rightarrow> False | Number n \<Rightarrow> 100 \<le> n \<and> n \<le> 4000))"
    by (simp add: isValidUrl_def sample_defs parse_samples)
  have p: "truthy (b_url ?b) \<and> isValidUrl ?E (b_url ?b)"
    by (simp add: isValidUrl_def sample_defs)
  have 1: "status (fst (get_screenshot sample ?q)) = 200"
    by (simp add: run_defs sample_defs parse_samples)
  have 2: "status (fst (post_screenshot ?E ?b)) = 500"
    by (simp add: run_defs sample_defs)
  show ?thesis
    using valid_request_never_client_error
      [where q = ?q and s = "''https://example.com''" and E = sample]
      valid_request_never_client_error [where b = ?b and E = ?E] g p 1 2
    by simp
qed

text \<open>
  Claim C5, as the code has it. The quality is neither checked nor clamped. No 4xx answer
  depends on it (nor on anything else in the options of a POST body), on either route,
  and the encoder is called with \<open>parseInt\<close> of the value
  as supplied (80 when it is absent or empty on the GET route, when it is absent on the
  POST route). What becomes of a quality outside 1 to 100 is left to the encoder.
\<close>

theorem quality_is_passed_unchanged:
  "(status (fst (get_screenshot E (q\<lparr>q_quality := x\<rparr>))) = 400) =
     (status (fst (get_screenshot E q)) = 400) \<and>
   (status (fst (post_screenshot E (b\<lparr>b_options := ov\<rparr>))) = 400) =
     (status (fst (post_screenshot E b)) = 400) \<and>
   (\<forall>img k. Webp img k \<in> set (snd (get_screenshot E q)) \<longrightarrow>
      k = parseInt (or_else (param (q_quality q)) (Num 80))) \<and>
   (\<forall>img k. Webp img k \<in> set (snd (post_screenshot E b)) \<longrightarrow>
      k = parseInt (dflt (quality (options_of (b_options b))) (Num 80)))"
proof -
  have 1: "(status (fst (get_screenshot E (q\<lparr>q_quality := x\<rparr>))) = 400) =
     (status (fst (get_screenshot E q)) = 400)"
    by (simp add: get_status_400 accepted_def widthNum_def heightNum_def)
  have 2: "(status (fst (post_screenshot E (b\<lparr>b_options := ov\<rparr>))) = 400) =
     (status (fst (post_screenshot E b)) = 400)"
    by (simp add: post_status_400)
  have w: "k = parseInt (dflt (quality (options_of opts)) (Num 80))"
    if "Webp img k \<in> set (snd (captureScreenshot E url opts))" for img k url opts
    using captureScreenshot_events [OF that] by (auto simp: work_events_def)
  have 3: "\<forall>img k. Webp img k \<in> set (snd (get_screenshot E q)) \<longrightarrow>
      k = parseInt (or_else (param (q_quality q)) (Num 80))"
  proof (intro allI impI)
    fix img k assume "Webp img k \<in> set (snd (get_screenshot E q))"
    then have "Webp img k \<in> set (snd (captureScreenshot E (param (q_url q)) (Opt_object (capture_options q))))"
      using get_calls by blast
    from w [OF this] show "k = parseInt (or_else (param (q_quality q)) (Num 80))"
      by (simp add: capture_options_def dflt_or_else)
  qed
  have 4: "\<forall>img k. Webp img k \<in> set (snd (post_screenshot E b)) \<longrightarrow>
      k = parseInt (dflt (quality (options_of (b_options b))) (Num 80))"
    using post_calls w by blast
  from 1 2 3 4 show ?thesis by blast
qed

theorem quality_is_passed_unchanged_witness:
  "Webp [137, 80, 78, 71] (Number 150) \<in> set (snd (get_screenshot sample
      (no_query\<lparr>q_url := Some ''https://example.com'', q_quality := Some ''150''\<rparr>))) \<and>
   Number 150 =
     parseInt (or_else (param (q_quality
       (no_query\<lparr>q_url := Some ''https://example.com'', q_quality := Some ''150''\<rparr>))) (Num 80)) \<and>
   status (fst (get_screenshot sample
      (no_query\<lparr>q_url := Some ''https://example.com'', q_quality := Some ''150''\<rparr>))) \<noteq> 400 \<and>
   Webp [137, 80, 78, 71] (Number 0) \<in> set (snd (post_screenshot sample
      \<lparr>b_url = Str ''https://example.com'', b_options = Opt_object (no_options\<lparr>quality := Num 0\<rparr>)\<rparr>)) \<and>
   Number 0 =
     parseInt (dflt (quality (options_of (b_options
       \<lparr>b_url = Str ''https://example.com'',
        b_options = Opt_object (no_options\<lparr>quality := Num 0\<rparr>)\<rparr>)))
       (Num 80))"
proof -
  let ?q = "no_query\<lparr>q_url := Some ''https://example.com'', q_quality := Some ''150''\<rparr>"
  let ?b = "\<lparr>b_url = Str ''https://example.com'', b_options = Opt_object (no_options\<lparr>quality := Num 0\<rparr>)\<rparr>"
  note t = quality_is_passed_unchanged [where E = sample and q = ?q and x = None and b = ?b]
  have c: "Webp [137, 80, 78, 71] (Number 150) \<in> set (snd (get_screenshot sample ?q))"
    by (simp add: run_defs sample_defs parse_samples)
  have s: "status (fst (get_screenshot sample (?q\<lparr>q_quality := None\<rparr>))) \<noteq> 400"
    by (simp add: run_defs sample_defs parse_samples)
  from t have "(status (fst (get_screenshot sample (?q\<lparr>q_quality := None\<rparr>))) = 400) =
     (status (fst (get_screenshot sample ?q)) = 400)"
    by (rule conjunct1)
  with s have 1: "status (fst (get_screenshot sample ?q)) \<noteq> 400" by blast
  from t [THEN conjunct2, THEN conjunct2, THEN conjunct1, THEN spec, THEN spec, THEN mp, OF c]
  have 2: "Number 150 = parseInt (or_else (param (q_quality ?q)) (Num 80))" .
  have d: "Webp [137, 80, 78, 71] (Number 0) \<in> set (snd (post_screenshot sample ?b))"
    by (simp add: run_defs sample_defs)
  from t [THEN conjunct2, THEN conjunct2, THEN conjunct2, THEN spec, THEN spec, THEN mp, OF d]
  have 3: "Number 0 = parseInt (dflt (quality (options_of (b_options ?b))) (Num 80))" .
  show ?thesis by (intro conjI c 2 1 d 3)
qed

text \<open>
  As the specification states it, the claim fails: a quality of 150 is not clamped. The
  encoder is called with 150, and an encoder that accepts 1 to 100 only, as Sharp does,
  rejects it, so the request fails with status 500.
\<close>

theorem quality_not_clamped_counterexample:
  "get_screenshot sample
      (no_query\<lparr>q_url := Some ''https://example.com'', q_quality := Some ''150''\<rparr>) =
     (Json 500 [(''error'', ''Failed to capture screenshot''),
                (''message'',
                 ''Screenshot failed: Expected integer between 1 and 100 for quality'')],
      [Launch, NewContext (Number 1200) (Number 800), NewPage,
       Goto (Str ''https://example.com'') ''networkidle'' (Number 30000),
       Screenshot \<lparr>so_type = ''png'', so_fullPage = False,
         so_clip = Some \<lparr>clip_x = 0, clip_y = 0, clip_width = Number 1200,
                          clip_height = Number 800\<rparr>\<rparr>,
       Webp [137, 80, 78, 71] (Number 150), PageClose, ContextClose, BrowserClose])"
  by (simp add: run_defs sample_defs parse_samples)

section \<open>What the browser is asked for\<close>

lemma screenshot_event:
  "Screenshot so \<in> set (snd (captureScreenshot E url ov)) \<Longrightarrow>
     so = make_screenshotOptions (dflt (width (options_of ov)) (Num 1200))
            (dflt (height (options_of ov)) (Num 800))
            (dflt (fullPage (options_of ov)) (Bool False))"
  using captureScreenshot_events [of "Screenshot so" E url ov] by (auto simp: work_events_def)

lemma goto_event:
  "Goto u p t \<in> set (snd (captureScreenshot E url ov)) \<Longrightarrow>
     u = url \<and>
     p = playwrightWaitUntil (dflt (waitUntil (options_of ov)) (Str ''networkidle'')) \<and>
     t = parseInt (dflt (timeout (options_of ov)) (Num 30000))"
  using captureScreenshot_events [of "Goto u p t" E url ov] by (auto simp: work_events_def)

lemma get_screenshot_event:
  assumes "Screenshot so \<in> set (snd (get_screenshot E q))"
  shows "so = make_screenshotOptions (Num (widthNum q)) (Num (heightNum q)) (param (q_fullPage q))
       \<and> 100 \<le> widthNum q \<and> widthNum q \<le> 4000 \<and> 100 \<le> heightNum q \<and> heightNum q \<le> 4000"
proof -
  from get_calls [OF assms] have a: "accepted E q"
    and c: "Screenshot so \<in> set (snd (captureScreenshot E (param (q_url q)) (Opt_object (capture_options q))))"
    by blast+
  have "dflt (param (q_fullPage q)) (Bool False) = param (q_fullPage q) \<or>
        (param (q_fullPage q) = Undefined \<and> dflt (param (q_fullPage q)) (Bool False) = Bool False)"
    by (simp add: dflt_def)
  then have "make_screenshotOptions (Num (widthNum q)) (Num (heightNum q))
        (dflt (param (q_fullPage q)) (Bool False)) =
      make_screenshotOptions (Num (widthNum q)) (Num (heightNum q)) (param (q_fullPage q))"
    by (auto simp: make_screenshotOptions_def)
  with screenshot_event [OF c] a show ?thesis
    by (simp add: capture_options_def dflt_def accepted_def)
qed

text \<open>
  Claim C7. When full page is off, the screenshot is asked for with the clip rectangle at
  (0, 0) of the width and height as \<open>parseInt\<close> reads them; when it is on, with no clip
  and the full-page flag, whatever the height. Every screenshot a run takes is asked for
  with these options, and on the GET route the clip is the validated width and height.
\<close>

theorem clip_to_viewport_or_full_page:
  "(fp \<noteq> Str ''true'' \<and> fp \<noteq> Bool True \<longrightarrow>
      make_screenshotOptions w h fp =
        \<lparr>so_type = ''png'', so_fullPage = False,
         so_clip = Some \<lparr>clip_x = 0, clip_y = 0, clip_width = parseInt w,
                          clip_height = parseInt h\<rparr>\<rparr>) \<and>
   (fp = Str ''true'' \<or> fp = Bool True \<longrightarrow>
      make_screenshotOptions w h fp = \<lparr>so_type = ''png'', so_fullPage = True, so_clip = None\<rparr>) \<and>
   (\<forall>so. Screenshot so \<in> set (snd (captureScreenshot E url ov)) \<longrightarrow>
      so = make_screenshotOptions (dflt (width (options_of ov)) (Num 1200))
             (dflt (height (options_of ov)) (Num 800))
             (dflt (fullPage (options_of ov)) (Bool False))) \<and>
   (\<forall>so. Screenshot so \<in> set (snd (get_screenshot E q)) \<longrightarrow>
      so = (if q_fullPage q = Some ''true''
            then \<lparr>so_type = ''png'', so_fullPage = True, so_clip = None\<rparr>
            else \<lparr>so_type = ''png'', so_fullPage = False,
                  so_clip = Some \<lparr>clip_x = 0, clip_y = 0, clip_width = Number (widthNum q),
                                   clip_height = Number (heightNum q)\<rparr>\<rparr>))"
proof -
  have 1: "fp \<noteq> Str ''true'' \<and> fp \<noteq> Bool True \<longrightarrow>
      make_screenshotOptions w h fp =
        \<lparr>so_type = ''png'', so_fullPage = False,
         so_clip = Some \<lparr>clip_x = 0, clip_y = 0, clip_width = parseInt w,
                          clip_height = parseInt h\<rparr>\<rparr>"
    by (simp add: make_screenshotOptions_def)
  have 2: "fp = Str ''true'' \<or> fp = Bool True \<longrightarrow>
      make_screenshotOptions w h fp = \<lparr>so_type = ''png'', so_fullPage = True, so_clip = None\<rparr>"
    by (auto simp: make_screenshotOptions_def)
  have 3: "\<forall>so. Screenshot so \<in> set (snd (captureScreenshot E url ov)) \<longrightarrow>
      so = make_screenshotOptions (dflt (width (options_of ov)) (Num 1200))
             (dflt (height (options_of ov)) (Num 800))
             (dflt (fullPage (options_of ov)) (Bool False))"
    using screenshot_event by blast
  have 4: "\<forall>so. Screenshot so \<in> set (snd (get_screenshot E q)) \<longrightarrow>
      so = (if q_fullPage q = Some ''true''
            then \<lparr>so_type = ''png'', so_fullPage = True, so_clip = None\<rparr>
            else \<lparr>so_type = ''png'', so_fullPage = False,
                  so_clip = Some \<lparr>clip_x = 0, clip_y = 0, clip_width = Number (widthNum q),
                                   clip_height = Number (heightNum q)\<rparr>\<rparr>)"
  proof (intro allI impI)
    fix so assume "Screenshot so \<in> set (snd (get_screenshot E q))"
    from get_screenshot_event [OF this]
    show "so = (if q_fullPage q = Some ''true''
            then \<lparr>so_type = ''png'', so_fullPage = True, so_clip = None\<rparr>
            else \<lparr>so_type = ''png'', so_fullPage = False,
                  so_clip = Some \<lparr>clip_x = 0, clip_y = 0, clip_width = Number (widthNum q),
                                   clip_height = Number (heightNum q)\<rparr>\<rparr>)"
      by (cases "q_fullPage q") (auto simp: make_screenshotOptions_def)
  qed
  from 1 2 3 4 show ?thesis by blast
qed

theorem clip_to_viewport_or_full_page_witness:
  "make_screenshotOptions (Num 800) (Num 600) (Str ''false'') =
     \<lparr>so_type = ''png'', so_fullPage = False,
      so_clip = Some \<lparr>clip_x = 0, clip_y = 0, clip_width = Number 800,
                       clip_height = Number 600\<rparr>\<rparr> \<and>
   make_screenshotOptions (Num 1024) (Num 768) (Str ''true'') =
     \<lparr>so_type = ''png'', so_fullPage = True, so_clip = None\<rparr> \<and>
   Screenshot \<lparr>so_type = ''png'', so_fullPage = True, so_clip = None\<rparr>
     \<in> set (snd (get_screenshot sample
          (no_query\<lparr>q_url := Some ''https://example.com'', q_fullPage := Some ''true'',
             q_height := Some ''600''\<rparr>))) \<and>
   Screenshot \<lparr>so_type = ''png'', so_fullPage = False,
      so_clip = Some \<lparr>clip_x = 0, clip_y = 0, clip_width = Number 800,
                       clip_height = Number 600\<rparr>\<rparr>
     \<in> set (snd (captureScreenshot sample (Str ''https://example.com'')
          (Opt_object (no_options\<lparr>width := Num 800, height := Str ''600''\<rparr>)))) \<and>
   make_screenshotOptions (Num 800) (Str ''600'') (Bool False) =
     \<lparr>so_type = ''png'', so_fullPage = False,
      so_clip = Some \<lparr>clip_x = 0, clip_y = 0, clip_width = Number 800,
                       clip_height = Number 600\<rparr>\<rparr>"
proof -
  let ?q = "no_query\<lparr>q_url := Some ''https://example.com'', q_fullPage := Some ''true'',
             q_height := Some ''600''\<rparr>"
  let ?o = "Opt_object (no_options\<lparr>width := Num 800, height := Str ''600''\<rparr>)"
  let ?so = "\<lparr>so_type = ''png'', so_fullPage = False,
      so_clip = Some \<lparr>clip_x = 0, clip_y = 0, clip_width = Number 800,
                       clip_height = Number 600\<rparr>\<rparr>"
  have p: "parseInt_string ''600'' = Number 600" by code_simp
  have c: "Screenshot \<lparr>so_type = ''png'', so_fullPage = True, so_clip = None\<rparr>
      \<in> set (snd (get_screenshot sample ?q))"
    by (simp add: run_defs sample_defs p)
  have d: "Screenshot ?so \<in> set (snd (captureScreenshot sample (Str ''https://example.com'') ?o))"
    by (simp add: run_defs sample_defs p)
  have a: "Str ''false'' \<noteq> Str ''true'' \<and> Str ''false'' \<noteq> Bool True" by simp
  have b: "Str ''true'' = Str ''true'' \<or> Str ''true'' = Bool True" by simp
  from clip_to_viewport_or_full_page
    [where fp = "Str ''false''" and w = "Num 800" and h = "Num 600", THEN conjunct1, THEN mp,
     OF a]
  have 1: "make_screenshotOptions (Num 800) (Num 600) (Str ''false'') = ?so"
    by simp
  from clip_to_viewport_or_full_page
    [where fp = "Str ''true''" and w = "Num 1024" and h = "Num 768", THEN conjunct2,
     THEN conjunct1, THEN mp, OF b]
  have 2: "make_screenshotOptions (Num 1024) (Num 768) (Str ''true'') =
     \<lparr>so_type = ''png'', so_fullPage = True, so_clip = None\<rparr>" .
  from clip_to_viewport_or_full_page
    [where E = sample and url = "Str ''https://example.com''" and ov = ?o, THEN conjunct2,
     THEN conjunct2, THEN conjunct1, THEN spec, THEN mp, OF d]
  have 3: "make_screenshotOptions (Num 800) (Str ''600'') (Bool False) = ?so"
    by (simp add: no_options_def dflt_def)
  from clip_to_viewport_or_full_page
    [where E = sample and q = ?q, THEN conjunct2, THEN conjunct2, THEN conjunct2,
     THEN spec, THEN mp, OF c]
  have "\<lparr>so_type = ''png'', so_fullPage = True, so_clip = None\<rparr> =
     (if q_fullPage ?q = Some ''true''
      then \<lparr>so_type = ''png'', so_fullPage = True, so_clip = None\<rparr>
      else \<lparr>so_type = ''png'', so_fullPage = False,
            so_clip = Some \<lparr>clip_x = 0, clip_y = 0, clip_width = Number (widthNum ?q),
                             clip_height = Number (heightNum ?q)\<rparr>\<rparr>)" .
  show ?thesis by (intro conjI 1 2 c d 3)
qed

text \<open>
  Claim C8. The wait policy handed to the navigation is \<open>load\<close> for \<open>load\<close>,
  \<open>domcontentloaded\<close> for \<open>domcontentloaded\<close>, and \<open>networkidle\<close> for \<open>networkidle0\<close>,
  \<open>networkidle2\<close> and every other value; every navigation of a run uses this mapping, and
  no 4xx answer depends on the value, on either route.
\<close>

theorem wait_policy_mapping:
  "playwrightWaitUntil (Str ''load'') = ''load'' \<and>
   playwrightWaitUntil (Str ''domcontentloaded'') = ''domcontentloaded'' \<and>
   playwrightWaitUntil (Str ''networkidle0'') = ''networkidle'' \<and>
   playwrightWaitUntil (Str ''networkidle2'') = ''networkidle'' \<and>
   (\<forall>v. v \<noteq> Str ''load'' \<and> v \<noteq> Str ''domcontentloaded'' \<longrightarrow>
      playwrightWaitUntil v = ''networkidle'') \<and>
   (\<forall>u p t. Goto u p t \<in> set (snd (get_screenshot E q)) \<longrightarrow>
      p = playwrightWaitUntil (or_else (param (q_waitUntil q)) (Str ''networkidle2''))) \<and>
   (\<forall>u p t. Goto u p t \<in> set (snd (post_screenshot E b)) \<longrightarrow>
      p = playwrightWaitUntil (dflt (waitUntil (options_of (b_options b)))
            (Str ''networkidle''))) \<and>
   (status (fst (get_screenshot E (q\<lparr>q_waitUntil := x\<rparr>))) = 400) =
     (status (fst (get_screenshot E q)) = 400) \<and>
   (status (fst (post_screenshot E (b\<lparr>b_options := ov\<rparr>))) = 400) =
     (status (fst (post_screenshot E b)) = 400)"
proof -
  have 1: "playwrightWaitUntil (Str ''load'') = ''load'' \<and>
   playwrightWaitUntil (Str ''domcontentloaded'') = ''domcontentloaded'' \<and>
   playwrightWaitUntil (Str ''networkidle0'') = ''networkidle'' \<and>
   playwrightWaitUntil (Str ''networkidle2'') = ''networkidle'' \<and>
   (\<forall>v. v \<noteq> Str ''load'' \<and> v \<noteq> Str ''domcontentloaded'' \<longrightarrow>
      playwrightWaitUntil v = ''networkidle'')"
    by (simp add: playwrightWaitUntil_def)
  have 2: "\<forall>u p t. Goto u p t \<in> set (snd (get_screenshot E q)) \<longrightarrow>
      p = playwrightWaitUntil (or_else (param (q_waitUntil q)) (Str ''networkidle2''))"
  proof (intro allI impI)
    fix u p t assume "Goto u p t \<in> set (snd (get_screenshot E q))"
    then have "Goto u p t \<in> set (snd (captureScreenshot E (param (q_url q)) (Opt_object (capture_options q))))"
      using get_calls by blast
    from goto_event [OF this]
    show "p = playwrightWaitUntil (or_else (param (q_waitUntil q)) (Str ''networkidle2''))"
      by (simp add: capture_options_def dflt_or_else)
  qed
  have 3: "\<forall>u p t. Goto u p t \<in> set (snd (post_screenshot E b)) \<longrightarrow>
      p = playwrightWaitUntil (dflt (waitUntil (options_of (b_options b)))
            (Str ''networkidle''))"
    using post_calls goto_event by blast
  have 4: "(status (fst (get_screenshot E (q\<lparr>q_waitUntil := x\<rparr>))) = 400) =
     (status (fst (get_screenshot E q)) = 400)"
    by (simp add: get_status_400 accepted_def widthNum_def heightNum_def)
  have 5: "(status (fst (post_screenshot E (b\<lparr>b_options := ov\<rparr>))) = 400) =
     (status (fst (post_screenshot E b)) = 400)"
    by (simp add: post_status_400)
  from 1 2 3 4 5 show ?thesis by blast
qed

theorem wait_policy_mapping_witness:
  "playwrightWaitUntil (Str ''commit'') = ''networkidle'' \<and>
   Goto (Str ''https://example.com'') ''domcontentloaded'' (Number 30000)
     \<in> set (snd (get_screenshot sample
          (no_query\<lparr>q_url := Some ''https://example.com'',
             q_waitUntil := Some ''domcontentloaded''\<rparr>))) \<and>
   playwrightWaitUntil (or_else (param (Some ''domcontentloaded'')) (Str ''networkidle2'')) =
     ''domcontentloaded'' \<and>
   Goto (Str ''https://example.com'') ''networkidle'' (Number 30000)
     \<in> set (snd (post_screenshot sample
          \<lparr>b_url = Str ''https://example.com'',
           b_options = Opt_object (no_options\<lparr>waitUntil := Str ''networkidle0''\<rparr>)\<rparr>)) \<and>
   ''networkidle'' = playwrightWaitUntil (dflt (Str ''networkidle0'') (Str ''networkidle''))"
proof -
  let ?q = "no_query\<lparr>q_url := Some ''https://example.com'',
             q_waitUntil := Some ''domcontentloaded''\<rparr>"
  let ?b = "\<lparr>b_url = Str ''https://example.com'',
           b_options = Opt_object (no_options\<lparr>waitUntil := Str ''networkidle0''\<rparr>)\<rparr>"
  have c: "Goto (Str ''https://example.com'') ''domcontentloaded'' (Number 30000)
     \<in> set (snd (get_screenshot sample ?q))"
    by (simp add: run_defs sample_defs parse_samples)
  have d: "Goto (Str ''https://example.com'') ''networkidle'' (Number 30000)
     \<in> set (snd (post_screenshot sample ?b))"
    by (simp add: run_defs sample_defs)
  have n: "Str ''commit'' \<noteq> Str ''load'' \<and> Str ''commit'' \<noteq> Str ''domcontentloaded''" by simp
  note t = wait_policy_mapping [where E = sample and q = ?q and x = None and b = ?b]
  from t [THEN conjunct2, THEN conjunct2, THEN conjunct2, THEN conjunct2, THEN conjunct1,
    THEN spec, THEN mp, OF n]
  have 1: "playwrightWaitUntil (Str ''commit'') = ''networkidle''" .
  from t [THEN conjunct2, THEN conjunct2, THEN conjunct2, THEN conjunct2, THEN conjunct2,
    THEN conjunct1, THEN spec, THEN spec, THEN spec, THEN mp, OF c]
  have 2: "playwrightWaitUntil (or_else (param (Some ''domcontentloaded'')) (Str ''networkidle2''))
      = ''domcontentloaded''"
    by simp
  from t [THEN conjunct2, THEN conjunct2, THEN conjunct2, THEN conjunct2, THEN conjunct2,
    THEN conjunct2, THEN conjunct1, THEN spec, THEN spec, THEN spec, THEN mp, OF d]
  have 3: "''networkidle'' = playwrightWaitUntil (dflt (Str ''networkidle0'') (Str ''networkidle''))"
    by simp
  show ?thesis by (intro conjI 1 c 2 d 3)
qed

text \<open>
  Claim C10. The full-page flag handed to the browser is on exactly when the supplied
  value is the string \<open>true\<close> or the boolean \<open>true\<close>. Any other value, such as \<open>True\<close>,
  \<open>1\<close> or \<open>yes\<close>, gives a capture clipped to the viewport, and no 4xx answer depends on
  the value, on either route.
\<close>

theorem full_page_only_for_true:
  "so_fullPage (make_screenshotOptions w h fp) = (fp = Str ''true'' \<or> fp = Bool True) \<and>
   (so_clip (make_screenshotOptions w h fp) = None) = (fp = Str ''true'' \<or> fp = Bool True) \<and>
   \<not> so_fullPage (make_screenshotOptions w h (Str ''True'')) \<and>
   \<not> so_fullPage (make_screenshotOptions w h (Str ''1'')) \<and>
   \<not> so_fullPage (make_screenshotOptions w h (Str ''yes'')) \<and>
   \<not> so_fullPage (make_screenshotOptions w h (Num 1)) \<and>
   (\<forall>so. Screenshot so \<in> set (snd (get_screenshot E q)) \<longrightarrow>
      so_fullPage so = (q_fullPage q = Some ''true'') \<and>
      (so_clip so = None) = (q_fullPage q = Some ''true'')) \<and>
   (\<forall>so. Screenshot so \<in> set (snd (post_screenshot E b)) \<longrightarrow>
      so_fullPage so =
        (fullPage (options_of (b_options b)) = Str ''true'' \<or>
         fullPage (options_of (b_options b)) = Bool True) \<and>
      (so_clip so = None) =
        (fullPage (options_of (b_options b)) = Str ''true'' \<or>
         fullPage (options_of (b_options b)) = Bool True)) \<and>
   (status (fst (get_screenshot E (q\<lparr>q_fullPage := x\<rparr>))) = 400) =
     (status (fst (get_screenshot E q)) = 400) \<and>
   (status (fst (post_screenshot E (b\<lparr>b_options := ov\<rparr>))) = 400) =
     (status (fst (post_screenshot E b)) = 400)"
proof -
  have 1: "so_fullPage (make_screenshotOptions w h fp) = (fp = Str ''true'' \<or> fp = Bool True)"
    "(so_clip (make_screenshotOptions w h fp) = None) = (fp = Str ''true'' \<or> fp = Bool True)"
    for w h fp
    by (simp_all add: make_screenshotOptions_def)
  have 2: "\<not> so_fullPage (make_screenshotOptions w h (Str ''True''))"
    "\<not> so_fullPage (make_screenshotOptions w h (Str ''1''))"
    "\<not> so_fullPage (make_screenshotOptions w h (Str ''yes''))"
    "\<not> so_fullPage (make_screenshotOptions w h (Num 1))"
    by (simp_all add: make_screenshotOptions_def)
  have 3: "\<forall>so. Screenshot so \<in> set (snd (get_screenshot E q)) \<longrightarrow>
      so_fullPage so = (q_fullPage q = Some ''true'') \<and>
      (so_clip so = None) = (q_fullPage q = Some ''true'')"
  proof (intro allI impI)
    fix so assume "Screenshot so \<in> set (snd (get_screenshot E q))"
    from get_screenshot_event [OF this]
    have "so = make_screenshotOptions (Num (widthNum q)) (Num (heightNum q))
        (param (q_fullPage q))"
      by blast
    then show "so_fullPage so = (q_fullPage q = Some ''true'') \<and>
      (so_clip so = None) = (q_fullPage q = Some ''true'')"
      using 1 by (cases "q_fullPage q") auto
  qed
  have 4: "\<forall>so. Screenshot so \<in> set (snd (post_screenshot E b)) \<longrightarrow>
      so_fullPage so =
        (fullPage (options_of (b_options b)) = Str ''true'' \<or>
         fullPage (options_of (b_options b)) = Bool True) \<and>
      (so_clip so = None) =
        (fullPage (options_of (b_options b)) = Str ''true'' \<or>
         fullPage (options_of (b_options b)) = Bool True)"
  proof (intro allI impI)
    fix so assume "Screenshot so \<in> set (snd (post_screenshot E b))"
    then have "Screenshot so \<in> set (snd (captureScreenshot E (b_url b) (b_options b)))"
      using post_calls by blast
    from screenshot_event [OF this]
    show "so_fullPage so =
        (fullPage (options_of (b_options b)) = Str ''true'' \<or>
         fullPage (options_of (b_options b)) = Bool True) \<and>
      (so_clip so = None) =
        (fullPage (options_of (b_options b)) = Str ''true'' \<or>
         fullPage (options_of (b_options b)) = Bool True)"
      using 1 by (auto simp: dflt_def)
  qed
  have 5: "(status (fst (get_screenshot E (q\<lparr>q_fullPage := x\<rparr>))) = 400) =
     (status (fst (get_screenshot E q)) = 400)"
    by (simp add: get_status_400 accepted_def widthNum_def heightNum_def)
  have 6: "(status (fst (post_screenshot E (b\<lparr>b_options := ov\<rparr>))) = 400) =
     (status (fst (post_screenshot E b)) = 400)"
    by (simp add: post_status_400)
  show ?thesis by (intro conjI 1 2 3 4 5 6)
qed

theorem full_page_only_for_true_witness:
  "Screenshot
     \<lparr>so_type = ''png'', so_fullPage = False,
      so_clip = Some \<lparr>clip_x = 0, clip_y = 0, clip_width = Number 1200,
                       clip_height = Number 800\<rparr>\<rparr>
     \<in> set (snd (get_screenshot sample
          (no_query\<lparr>q_url := Some ''https://example.com'', q_fullPage := Some ''True''\<rparr>))) \<and>
   status (fst (get_screenshot sample
          (no_query\<lparr>q_url := Some ''https://example.com'', q_fullPage := Some ''True''\<rparr>))) = 200 \<and>
   so_fullPage
     \<lparr>so_type = ''png'', so_fullPage = False,
      so_clip = Some \<lparr>clip_x = 0, clip_y = 0, clip_width = Number 1200,
                       clip_height = Number 800\<rparr>\<rparr> = (Some ''True'' = Some ''true'') \<and>
   Screenshot \<lparr>so_type = ''png'', so_fullPage = True, so_clip = None\<rparr>
     \<in> set (snd (post_screenshot sample
          \<lparr>b_url = Str ''https://example.com'',
           b_options = Opt_object (no_options\<lparr>fullPage := Bool True\<rparr>)\<rparr>)) \<and>
   so_fullPage \<lparr>so_type = ''png'', so_fullPage = True, so_clip = None\<rparr> =
     (Bool True = Str ''true'' \<or> Bool True = Bool True)"
proof -
  let ?q = "no_query\<lparr>q_url := Some ''https://example.com'', q_fullPage := Some ''True''\<rparr>"
  let ?b = "\<lparr>b_url = Str ''https://example.com'',
           b_options = Opt_object (no_options\<lparr>fullPage := Bool True\<rparr>)\<rparr>"
  let ?so = "\<lparr>so_type = ''png'', so_fullPage = False,
      so_clip = Some \<lparr>clip_x = 0, clip_y = 0, clip_width = Number 1200,
                       clip_height = Number 800\<rparr>\<rparr>"
  have c: "Screenshot ?so \<in> set (snd (get_screenshot sample ?q))"
    by (simp add: run_defs sample_defs parse_samples)
  have s: "status (fst (get_screenshot sample ?q)) = 200"
    by (simp add: run_defs sample_defs parse_samples)
  have d: "Screenshot \<lparr>so_type = ''png'', so_fullPage = True, so_clip = None\<rparr>
     \<in> set (snd (post_screenshot sample ?b))"
    by (simp add: run_defs sample_defs)
  note t = full_page_only_for_true [where E = sample and q = ?q and x = None and b = ?b]
  from t [THEN conjunct2, THEN conjunct2, THEN conjunct2, THEN conjunct2, THEN conjunct2,
    THEN conjunct2, THEN conjunct1, THEN spec, THEN mp, OF c, THEN conjunct1]
  have 1: "so_fullPage ?so = (Some ''True'' = Some ''true'')"
    by simp
  from t [THEN conjunct2, THEN conjunct2, THEN conjunct2, THEN conjunct2, THEN conjunct2,
    THEN conjunct2, THEN conjunct2, THEN conjunct1, THEN spec, THEN mp, OF d, THEN conjunct1]
  have 2: "so_fullPage \<lparr>so_type = ''png'', so_fullPage = True, so_clip = None\<rparr> =
     (Bool True = Str ''true'' \<or> Bool True = Bool True)"
    by (simp add: no_options_def)
  show ?thesis by (intro conjI c s 1 d 2)
qed

section \<open>The overall timeout\<close>








end
